theory Spec2Isabelle
  imports Main
begin

section \<open>Strings of the host language\<close>

text \<open>
  The orchestrator (\<^verbatim>\<open>src/backend/stack.ts\<close>) works on JavaScript strings. They are
  modelled as \<^typ>\<open>string\<close>; only the string methods the class calls are embedded.
  Characters outside ASCII are not modelled (in particular the Unicode white space that
  \<^verbatim>\<open>trim\<close> and \<^verbatim>\<open>parseInt\<close> also skip).
\<close>

definition startsWith :: "string \<Rightarrow> string \<Rightarrow> bool" where
  \<comment> \<open>\<^verbatim>\<open>s.startsWith(p)\<close>, also \<^verbatim>\<open>s.startsWith(p, 0)\<close>\<close>
  "startsWith s p = (take (length p) s = p)"

fun includes_str :: "string \<Rightarrow> string \<Rightarrow> bool" where
  \<comment> \<open>\<^verbatim>\<open>s.includes(p)\<close>: \<open>p\<close> occurs in \<open>s\<close> as a contiguous substring\<close>
  "includes_str [] p = (p = [])"
| "includes_str (c # s) p = (startsWith (c # s) p \<or> includes_str s p)"

fun split_str :: "char \<Rightarrow> string \<Rightarrow> string list" where
  \<comment> \<open>\<^verbatim>\<open>s.split(sep)\<close> for a one-character separator: never the empty array\<close>
  "split_str sep [] = [[]]"
| "split_str sep (c # s) =
     (if c = sep then [] # split_str sep s
      else (case split_str sep s of
              [] \<Rightarrow> [[c]]
            | w # ws \<Rightarrow> (c # w) # ws))"

definition isWhiteSpace :: "char \<Rightarrow> bool" where
  \<comment> \<open>TAB, LF, VT, FF, CR and SP\<close>
  "isWhiteSpace c = (c \<in> set [CHR 0x09, CHR ''\<newline>'', CHR 0x0B, CHR 0x0C, CHR 0x0D, CHR '' ''])"

definition trim :: "string \<Rightarrow> string" where
  "trim s = rev (dropWhile isWhiteSpace (rev (dropWhile isWhiteSpace s)))"

definition digit_val :: "nat \<Rightarrow> char \<Rightarrow> nat option" where
  \<comment> \<open>the value of \<open>c\<close> as a digit of radix \<open>r\<close>, if it is one\<close>
  "digit_val r c =
     (let n = (of_char c :: nat);
          v = (if 48 \<le> n \<and> n \<le> 57 then Some (n - 48)
               else if 97 \<le> n \<and> n \<le> 122 then Some (n - 87)
               else if 65 \<le> n \<and> n \<le> 90 then Some (n - 55)
               else None)
      in case v of
           None \<Rightarrow> None
         | Some d \<Rightarrow> if d < r then Some d else None)"

fun leading_digits :: "nat \<Rightarrow> string \<Rightarrow> nat list" where
  "leading_digits r [] = []"
| "leading_digits r (c # s) =
     (case digit_val r c of
        None \<Rightarrow> []
      | Some d \<Rightarrow> d # leading_digits r s)"

definition parseInt :: "string \<Rightarrow> int option" where
  \<comment> \<open>\<^verbatim>\<open>parseInt(str)\<close> without a radix; \<open>None\<close> is \<^verbatim>\<open>NaN\<close>. The result is kept as an
      exact integer: the class only compares it with a count of array elements, and the
      rounding of doubles starts far above any array length.\<close>
  "parseInt str =
     (let s = dropWhile isWhiteSpace str;
          neg = (case s of [] \<Rightarrow> False | c # _ \<Rightarrow> c = CHR ''-'');
          s1 = (case s of
                  [] \<Rightarrow> []
                | c # t \<Rightarrow> if c = CHR ''+'' \<or> c = CHR ''-'' then t else s);
          hex = (startsWith s1 ''0x'' \<or> startsWith s1 ''0X'');
          r = (if hex then 16 else 10);
          ds = leading_digits r (if hex then drop 2 s1 else s1);
          v = int (foldl (\<lambda>a d. a * r + d) 0 ds)
      in if ds = [] then None else Some (if neg then - v else v))"

section \<open>Errors\<close>

text \<open>
  Every \<^verbatim>\<open>throw\<close> and every rejected promise is a value. \<open>ValidationError\<close> and
  \<open>Error\<close> carry their message; \<open>TypeError\<close> is the host language's error for a method
  call on \<^verbatim>\<open>undefined\<close>; \<open>YAMLParseError\<close> is what the YAML library's \<^verbatim>\<open>parse\<close>
  throws; \<open>FsError\<close> is a failed file-system call; \<open>Rejected\<close> is a promise rejected
  with a string that is not an error object.
\<close>

datatype error =
    ValidationError string
  | Error string
  | TypeError
  | YAMLParseError
  | FsError
  | Rejected string

section \<open>The file system\<close>

text \<open>
  A path is the list of its components below the root. \<^verbatim>\<open>path.join(dir, name)\<close>
  normalises what it joins: the name is split at the separator, an empty component and
  \<open>.\<close> are dropped, and \<open>..\<close> removes the component before it. The directory is taken
  to be absolute and normalised, as the stacks directory of the server is; separators
  other than \<open>/\<close> are not modelled.
\<close>

type_synonym fspath = "string list"

datatype node = File string | Dir

type_synonym filesystem = "fspath \<rightharpoonup> node"

definition join_step :: "fspath \<Rightarrow> string \<Rightarrow> fspath" where
  "join_step p c =
     (if c = [] \<or> c = ''.'' then p
      else if c = ''..'' then butlast p
      else p @ [c])"

definition path_join :: "fspath \<Rightarrow> string \<Rightarrow> fspath" where
  "path_join dir n = foldl join_step dir (split_str CHR ''/'' n)"

definition existsSync :: "filesystem \<Rightarrow> fspath \<Rightarrow> bool" where
  \<comment> \<open>\<^verbatim>\<open>fs.existsSync\<close>, and \<^verbatim>\<open>fileExists\<close> of \<^verbatim>\<open>util-server\<close>\<close>
  "existsSync fs p = (fs p \<noteq> None)"

definition readFileSync :: "filesystem \<Rightarrow> fspath \<Rightarrow> error + string" where
  "readFileSync fs p =
     (case fs p of
        Some (File c) \<Rightarrow> Inr c
      | _ \<Rightarrow> Inl FsError)"

definition mkdir :: "filesystem \<Rightarrow> fspath \<Rightarrow> error + filesystem" where
  \<comment> \<open>not recursive: the target must be new and its parent a directory\<close>
  "mkdir fs p =
     (if fs p \<noteq> None then Inl FsError
      else if fs (butlast p) \<noteq> Some Dir then Inl FsError
      else Inr (fs(p \<mapsto> Dir)))"

definition writeFile :: "filesystem \<Rightarrow> fspath \<Rightarrow> string \<Rightarrow> error + filesystem" where
  "writeFile fs p content =
     (if fs p = Some Dir then Inl FsError
      else if fs (butlast p) \<noteq> Some Dir then Inl FsError
      else Inr (fs(p \<mapsto> File content)))"


section \<open>The stack\<close>

text \<open>
  Modelled from the spec: the status constants of \<^verbatim>\<open>common/util-common\<close>, a file that is
  not among the sources. The spec's data model gives a project's status as one of
  Unknown, CreatedFromFile, CreatedAsProject, Running and Exited; the constructors keep
  the names the class imports.
\<close>

datatype status = UNKNOWN | CREATED_FILE | CREATED_STACK | RUNNING | EXITED

record DockgeServer =
  stacksDir :: fspath

record DockgeSocket =
  socket_id :: string
  endpoint :: string
  connected :: bool

text \<open>
  The fields of the class that its methods read. The three fields
  \<^verbatim>\<open>_composeYAML\<close>, \<^verbatim>\<open>_composeENV\<close> and \<^verbatim>\<open>_composeOverrideYAML\<close> are written by the
  constructor and never read (the accessors go through \<open>fileCache\<close>), so they are left out.
\<close>

record Stack =
  name :: string
  status :: status
  composeFileName :: string
  composeOverrideFileName :: string
  fileCache :: "string \<rightharpoonup> string"
  server :: DockgeServer

definition path :: "Stack \<Rightarrow> fspath" where
  "path s = path_join (stacksDir (server s)) (name s)"

subsection \<open>Discovery of the artifact file names\<close>

text \<open>
  \<^verbatim>\<open>acceptedComposeFileNames\<close> and \<^verbatim>\<open>acceptedComposeOverrideFileNames\<close> come from
  \<^verbatim>\<open>common/util-common\<close>; they are parameters here. The loop returns at the first name
  that exists in the directory.
\<close>

fun findComposeFileName :: "filesystem \<Rightarrow> fspath \<Rightarrow> string list \<Rightarrow> string" where
  "findComposeFileName fs dir [] = ''compose.yaml''"
| "findComposeFileName fs dir (filename # rest) =
     (if existsSync fs (path_join dir filename) then filename
      else findComposeFileName fs dir rest)"

fun findComposeOverrideFileName :: "filesystem \<Rightarrow> fspath \<Rightarrow> string list \<Rightarrow> string" where
  "findComposeOverrideFileName fs dir [] = ''compose.override.yaml''"
| "findComposeOverrideFileName fs dir (filename # rest) =
     (if existsSync fs (path_join dir filename) then filename
      else findComposeOverrideFileName fs dir rest)"

subsection \<open>The cached artifact contents\<close>

definition getFileContent ::
  "filesystem \<Rightarrow> Stack \<Rightarrow> fspath \<Rightarrow> string \<Rightarrow> string \<Rightarrow> string \<times> Stack" where
  \<comment> \<open>returns the content and the stack with its cache filled\<close>
  "getFileContent fs s filePath cacheKey defaultValue =
     (case fileCache s cacheKey of
        Some v \<Rightarrow> (v, s)
      | None \<Rightarrow>
          (let v = (case readFileSync fs filePath of
                      Inr c \<Rightarrow> c
                    | Inl e \<Rightarrow> defaultValue)
           in (v, s\<lparr>fileCache := (fileCache s)(cacheKey \<mapsto> v)\<rparr>)))"

definition composeYAML :: "filesystem \<Rightarrow> Stack \<Rightarrow> string \<times> Stack" where
  "composeYAML fs s =
     getFileContent fs s (path_join (path s) (composeFileName s)) ''compose'' ''''"

definition composeENV :: "filesystem \<Rightarrow> Stack \<Rightarrow> string \<times> Stack" where
  "composeENV fs s = getFileContent fs s (path_join (path s) ''.env'') ''env'' ''''"

definition composeOverrideYAML :: "filesystem \<Rightarrow> Stack \<Rightarrow> string \<times> Stack" where
  "composeOverrideYAML fs s =
     getFileContent fs s (path_join (path s) (composeOverrideFileName s)) ''override'' ''''"

definition new_Stack ::
  "string list \<Rightarrow> string list \<Rightarrow> filesystem \<Rightarrow> DockgeServer \<Rightarrow> string \<Rightarrow>
   string option \<Rightarrow> string option \<Rightarrow> string option \<Rightarrow> bool \<Rightarrow> Stack" where
  \<comment> \<open>the constructor; the first two arguments are the accepted file names\<close>
  "new_Stack accepted acceptedOverride fs srv n yaml env override skipFSOperations =
     (let c0 = Map.empty;
          c1 = (case yaml of None \<Rightarrow> c0 | Some v \<Rightarrow> c0(''compose'' \<mapsto> v));
          c2 = (case env of None \<Rightarrow> c1 | Some v \<Rightarrow> c1(''env'' \<mapsto> v));
          c3 = (case override of None \<Rightarrow> c2 | Some v \<Rightarrow> c2(''override'' \<mapsto> v));
          dir = path_join (stacksDir srv) n
      in \<lparr> name = n, status = UNKNOWN,
           composeFileName =
             (if skipFSOperations then ''compose.yaml''
              else findComposeFileName fs dir accepted),
           composeOverrideFileName =
             (if skipFSOperations then ''compose.override.yaml''
              else findComposeOverrideFileName fs dir acceptedOverride),
           fileCache = c3, server = srv \<rparr>)"

subsection \<open>Validation\<close>

definition validateEnvFormat :: "string \<Rightarrow> error + unit" where
  \<comment> \<open>the argument is the value of the accessor \<^verbatim>\<open>composeENV\<close>; \<open>lines\<close> is never empty\<close>
  "validateEnvFormat env =
     (let lines = split_str CHR ''\<newline>'' env
      in if length lines = 1 \<and> \<not> includes_str (hd lines) ''='' \<and> length (hd lines) > 0
         then Inl (ValidationError ''Invalid .env format'')
         else Inr ())"

definition name_char :: "char \<Rightarrow> bool" where
  \<comment> \<open>the character class \<^verbatim>\<open>[a-z0-9_-]\<close>\<close>
  "name_char c =
     (let n = (of_char c :: nat)
      in (97 \<le> n \<and> n \<le> 122) \<or> (48 \<le> n \<and> n \<le> 57) \<or> c = CHR ''_'' \<or> c = CHR ''-'')"

definition name_matches :: "string \<Rightarrow> bool" where
  \<comment> \<open>\<^verbatim>\<open>name.match(/^[a-z0-9_-]+$/)\<close> is not null\<close>
  "name_matches n = (n \<noteq> [] \<and> list_all name_char n)"

text \<open>
  \<^verbatim>\<open>yaml.parse\<close> belongs to a library; \<open>yaml_ok\<close> says on which texts it returns. On the
  others it throws its own error, which \<^verbatim>\<open>validate\<close> does not catch. The accessors are
  called as often as the source calls them.
\<close>

definition validate :: "(string \<Rightarrow> bool) \<Rightarrow> filesystem \<Rightarrow> Stack \<Rightarrow> (error + unit) \<times> Stack" where
  "validate yaml_ok fs s =
     (if \<not> name_matches (name s)
      then (Inl (ValidationError ''Stack name can only contain [a-z][0-9] _ - only''), s)
      else
        (let (y, s1) = composeYAML fs s
         in if \<not> yaml_ok y then (Inl YAMLParseError, s1)
            else
              (let (o1, s2) = composeOverrideYAML fs s1;
                   (o2, s3) = (if o1 \<noteq> [] then composeOverrideYAML fs s2 else (o1, s2));
                   check = (o1 \<noteq> [] \<and> trim o2 \<noteq> []);
                   (o3, s4) = (if check then composeOverrideYAML fs s3 else (o2, s3))
               in if check \<and> \<not> yaml_ok o3 then (Inl YAMLParseError, s4)
                  else
                    (let (env, s5) = composeENV fs s4
                     in (validateEnvFormat env, s5)))))"

subsection \<open>Saving\<close>

definition writeFileIfExistsOrNotEmpty ::
  "filesystem \<Rightarrow> fspath \<Rightarrow> string \<Rightarrow> error + filesystem" where
  "writeFileIfExistsOrNotEmpty fs filePath content =
     (if existsSync fs filePath \<or> trim content \<noteq> [] then writeFile fs filePath content
      else Inr fs)"

definition writeFileIfNotEmpty :: "filesystem \<Rightarrow> fspath \<Rightarrow> string \<Rightarrow> error + filesystem" where
  \<comment> \<open>as in the source, it writes whatever the content is\<close>
  "writeFileIfNotEmpty fs filePath content = writeFile fs filePath content"

definition writeStackFiles :: "filesystem \<Rightarrow> Stack \<Rightarrow> (error + unit) \<times> Stack \<times> filesystem" where
  "writeStackFiles fs s =
     (let (y, s1) = composeYAML fs s
      in case writeFileIfNotEmpty fs (path_join (path s1) (composeFileName s1)) y of
           Inl e \<Rightarrow> (Inl e, s1, fs)
         | Inr fs1 \<Rightarrow>
             (let envPath = path_join (path s1) ''.env'';
                  (env, s2) = composeENV fs1 s1
              in case writeFileIfExistsOrNotEmpty fs1 envPath env of
                   Inl e \<Rightarrow> (Inl e, s2, fs1)
                 | Inr fs2 \<Rightarrow>
                     (let overridePath = path_join (path s2) (composeOverrideFileName s2);
                          (ov, s3) = composeOverrideYAML fs2 s2
                      in case writeFileIfExistsOrNotEmpty fs2 overridePath ov of
                           Inl e \<Rightarrow> (Inl e, s3, fs2)
                         | Inr fs3 \<Rightarrow> (Inr (), s3\<lparr>fileCache := Map.empty\<rparr>, fs3))))"

definition save ::
  "(string \<Rightarrow> bool) \<Rightarrow> filesystem \<Rightarrow> Stack \<Rightarrow> bool \<Rightarrow> (error + unit) \<times> Stack \<times> filesystem" where
  "save yaml_ok fs s isAdd =
     (case validate yaml_ok fs s of
        (Inl e, s1) \<Rightarrow> (Inl e, s1, fs)
      | (Inr _, s1) \<Rightarrow>
          (let dir = path s1
           in if isAdd then
                (if existsSync fs dir
                 then (Inl (ValidationError ''Stack name already exists''), s1, fs)
                 else (case mkdir fs dir of
                         Inl e \<Rightarrow> (Inl e, s1, fs)
                       | Inr fs1 \<Rightarrow> writeStackFiles fs1 s1))
              else
                (if \<not> existsSync fs dir
                 then (Inl (ValidationError ''Stack not found''), s1, fs)
                 else writeStackFiles fs s1)))"

section \<open>Running the compose tool\<close>

definition splice_insert :: "nat \<Rightarrow> 'a list \<Rightarrow> 'a list \<Rightarrow> 'a list" where
  \<comment> \<open>\<^verbatim>\<open>xs.splice(i, 0, ...ys)\<close>\<close>
  "splice_insert i ys xs = take i xs @ ys @ drop i xs"

definition getComposeOptions :: "filesystem \<Rightarrow> Stack \<Rightarrow> string \<Rightarrow> string list \<Rightarrow> string list" where
  "getComposeOptions fs s command extraOptions =
     (let options = [''compose'', command] @ extraOptions
      in if existsSync fs (path_join (stacksDir (server s)) ''global.env'') then
           (let options1 = splice_insert 1 [''--env-file'', ''../global.env''] options
            in if existsSync fs (path_join (path s) ''.env'')
               then splice_insert 1 [''--env-file'', ''./.env''] options1
               else options1)
         else options)"

section \<open>One-shot sessions\<close>

text \<open>
  The class \<^verbatim>\<open>Terminal\<close> (its source is the second document of
  \<^verbatim>\<open>src/frontend/vite.config.ts\<close>). A JavaScript number is an integer, \<^verbatim>\<open>NaN\<close>, or
  some other value (a fraction or an infinity), all of these as one.
\<close>

datatype number = Num int | NonInteger | NaN

text \<open>
  What the pseudo-terminal library does when a process is spawned: it throws an error
  object with a message, it throws something else, or the process starts and then exits
  with a code or never exits.
\<close>

datatype pty_outcome = ThrowsError string | ThrowsOther | Exits int | NeverExits

text \<open>
  The surroundings of the two classes. The session-name function and the three terminal
  sizes come from \<^verbatim>\<open>common/util-common\<close>, which is not among the sources, and are
  parameters. \<open>pty_spawn\<close> is what the library answers to the \<open>n\<close>-th spawn. \<open>Number\<close> is
  the conversion of a string to a number by the host language, which works on floating
  point and is not modelled.
\<close>

record host =
  getComposeTerminalName :: "string \<Rightarrow> string \<Rightarrow> string"
  PROGRESS_TERMINAL_ROWS :: nat
  TERMINAL_COLS :: nat
  TERMINAL_ROWS :: nat
  pty_spawn :: "nat \<Rightarrow> pty_outcome"
  Number :: "string \<Rightarrow> number"

text \<open>
  The fields of a terminal. The two timers are there or not; \<open>ptyProcess\<close> says whether
  the process was spawned; \<open>callback\<close> says whether a callback was registered (the only
  one the class is given resolves the promise of \<^verbatim>\<open>exec\<close>). The buffer of the output
  is left out: the output of the process is not modelled.
\<close>

record Terminal =
  t_server :: DockgeServer
  t_name :: string
  t_file :: string
  t_args :: "string list"
  t_cwd :: fspath
  t_rows :: nat
  t_cols :: nat
  enableKeepAlive :: bool
  keepAliveInterval :: bool
  kickDisconnectedClientsInterval :: bool
  socketList :: "(string \<times> DockgeSocket) list"
  ptyProcess :: bool
  callback :: bool

record pty_spawn_call =
  p_file :: string
  p_args :: "string list"
  p_name :: string
  p_cwd :: fspath
  p_cols :: nat
  p_rows :: nat

text \<open>
  The state the classes work on: the files, the static table of the registered
  terminals, the spawns made so far with what the library answered, and the
  \<^verbatim>\<open>terminalExit\<close> events sent (socket, terminal name, exit code). The timers are set
  and cleared but never fire in the model: the one that every terminal starts drops,
  once a minute, the sockets that are no longer connected, so the model is of sessions
  whose sockets stay connected.
\<close>

record world =
  files :: filesystem
  terminalMap :: "string \<rightharpoonup> Terminal"
  spawned :: "(pty_spawn_call \<times> pty_outcome) list"
  emitted :: "(string \<times> string \<times> number) list"

definition register :: "Terminal \<Rightarrow> world \<Rightarrow> world" where
  \<comment> \<open>the table holds the object itself: its entry shows every later change of it\<close>
  "register t w = w\<lparr>terminalMap := (terminalMap w)(t_name t \<mapsto> t)\<rparr>"

definition new_Terminal ::
  "host \<Rightarrow> DockgeServer \<Rightarrow> string \<Rightarrow> string \<Rightarrow> string list \<Rightarrow> fspath \<Rightarrow> world \<Rightarrow>
   Terminal \<times> world" where
  "new_Terminal h srv n f argv dir w =
     (let t = \<lparr>t_server = srv, t_name = n, t_file = f, t_args = argv, t_cwd = dir,
                t_rows = TERMINAL_ROWS h, t_cols = TERMINAL_COLS h,
                enableKeepAlive = False, keepAliveInterval = False,
                kickDisconnectedClientsInterval = False, socketList = [],
                ptyProcess = False, callback = False\<rparr>
      in (t, register t w))"

definition set_rows :: "Terminal \<Rightarrow> nat \<Rightarrow> Terminal" where
  \<comment> \<open>the setter also resizes a process that runs; a failure of that is only logged\<close>
  "set_rows t r = t\<lparr>t_rows := r\<rparr>"

fun assign :: "string \<Rightarrow> 'v \<Rightarrow> (string \<times> 'v) list \<Rightarrow> (string \<times> 'v) list" where
  \<comment> \<open>\<^verbatim>\<open>obj[k] = v\<close> on an object whose keys, none of them an array index, keep the
      order of their insertion\<close>
  "assign k v [] = [(k, v)]"
| "assign k v ((k', v') # kvs) =
     (if k' = k then (k, v) # kvs else (k', v') # assign k v kvs)"

definition join :: "Terminal \<Rightarrow> DockgeSocket \<Rightarrow> Terminal" where
  "join t socket = t\<lparr>socketList := assign (socket_id socket) socket (socketList t)\<rparr>"

definition onExit :: "Terminal \<Rightarrow> Terminal" where
  "onExit t = t\<lparr>callback := True\<rparr>"

definition exit :: "Terminal \<Rightarrow> number \<Rightarrow> world \<Rightarrow> number option \<times> world" where
  \<comment> \<open>the exit handler; the result is what the callback is called with, if there is one.
      The terminal leaves the table before the callback runs.\<close>
  "exit t exitCode w =
     (let w1 = w\<lparr>emitted := emitted w @
                   map (\<lambda>(socketID, socket). (socketID, t_name t, exitCode)) (socketList t)\<rparr>;
          w2 = w1\<lparr>terminalMap := (terminalMap w1)(t_name t := None)\<rparr>
      in (if callback t then Some exitCode else None, w2))"

definition start :: "host \<Rightarrow> Terminal \<Rightarrow> world \<Rightarrow> number option \<times> world" where
  \<comment> \<open>\<open>None\<close>: the exit handler has not run and never will through this call\<close>
  "start h t w =
     (if ptyProcess t then (None, w)
      else
        (let t1 = t\<lparr>kickDisconnectedClientsInterval := True\<rparr>;
             t2 = (if enableKeepAlive t1 then t1\<lparr>keepAliveInterval := True\<rparr> else t1);
             outcome = pty_spawn h (length (spawned w));
             w1 = w\<lparr>spawned := spawned w @
                     [(\<lparr>p_file = t_file t2, p_args = t_args t2, p_name = t_name t2,
                        p_cwd = t_cwd t2, p_cols = TERMINAL_COLS h, p_rows = t_rows t2\<rparr>,
                       outcome)]\<rparr>
         in case outcome of
              ThrowsError message \<Rightarrow>
                (let t3 = t2\<lparr>keepAliveInterval := False\<rparr>;
                     exitCode = Number h (last (split_str CHR '' '' message))
                 in exit t3 exitCode (register t3 w1))
            | ThrowsOther \<Rightarrow> (None, register t2 w1)
            | NeverExits \<Rightarrow> (None, register (t2\<lparr>ptyProcess := True\<rparr>) w1)
            | Exits code \<Rightarrow>
                exit (t2\<lparr>ptyProcess := True\<rparr>) (Num code)
                  (register (t2\<lparr>ptyProcess := True\<rparr>) w1)))"

text \<open>
  A promise is settled with a value, rejected with an error, or never settled (\<open>None\<close>):
  the code that awaits it then never goes on.
\<close>

type_synonym 'a promise = "(error + 'a) option"

definition Terminal_exec ::
  "host \<Rightarrow> DockgeServer \<Rightarrow> DockgeSocket option \<Rightarrow> string \<Rightarrow> string \<Rightarrow> string list \<Rightarrow> fspath \<Rightarrow>
   world \<Rightarrow> number promise \<times> world" where
  "Terminal_exec h srv socket tname f argv dir w =
     (if terminalMap w tname \<noteq> None
      then (Some (Inl (Rejected
              ''Another operation is already running, please try again later.'')), w)
      else
        (let (terminal, w1) = new_Terminal h srv tname f argv dir w;
             terminal1 = set_rows terminal (PROGRESS_TERMINAL_ROWS h);
             terminal2 = (case socket of
                            None \<Rightarrow> terminal1
                          | Some so \<Rightarrow> join terminal1 so);
             terminal3 = onExit terminal2
         in case start h terminal3 w1 of
              (None, w2) \<Rightarrow> (None, w2)
            | (Some exitCode, w2) \<Rightarrow> (Some (Inr exitCode), w2)))"

section \<open>The operations on a stack\<close>

definition getErrorMessage :: "string \<Rightarrow> string" where
  "getErrorMessage actionDescription =
     ''Failed to '' @ actionDescription @
     '', please check the terminal output for more information.''"

definition runTerminalExec ::
  "host \<Rightarrow> DockgeSocket \<Rightarrow> Stack \<Rightarrow> string \<Rightarrow> string list \<Rightarrow> string \<Rightarrow> world \<Rightarrow>
   number promise \<times> world" where
  "runTerminalExec h socket s command argv actionDescription w =
     (let tname = getComposeTerminalName h (endpoint socket) (name s)
      in case Terminal_exec h (server s) (Some socket) tname command argv (path s) w of
           (None, w1) \<Rightarrow> (None, w1)
         | (Some (Inl e), w1) \<Rightarrow> (Some (Inl e), w1)
         | (Some (Inr exitCode), w1) \<Rightarrow>
             if exitCode \<noteq> Num 0
             then (Some (Inl (Error (getErrorMessage actionDescription))), w1)
             else (Some (Inr exitCode), w1))"

definition runComposeCommand ::
  "host \<Rightarrow> DockgeSocket \<Rightarrow> Stack \<Rightarrow> string \<Rightarrow> string list \<Rightarrow> string \<Rightarrow> world \<Rightarrow>
   number promise \<times> world" where
  "runComposeCommand h socket s command argv actionDescription w =
     (let fullArgs = getComposeOptions (files w) s command argv
      in runTerminalExec h socket s ''docker'' fullArgs actionDescription w)"





section \<open>The status classifier\<close>

record StackJson =
  Name :: string
  Status :: string
  ConfigFiles :: string

record ContainerJson =
  c_Name :: string
  c_Service :: string
  c_State :: string
  c_Status :: string
  c_Health :: string

text \<open>
  What the container engine answers when the class spawns it, and the JSON parser of the
  host language on the two shapes the class reads (\<open>None\<close> where \<^verbatim>\<open>JSON.parse\<close>
  throws). \<open>SpawnFailed\<close> is a rejected spawn.
\<close>

datatype spawn_result = SpawnFailed | Stdout string

record docker =
  compose_ls :: spawn_result
  docker_ps :: "string \<Rightarrow> spawn_result"
  parse_stack_list :: "string \<Rightarrow> StackJson list option"
  parse_container :: "string \<Rightarrow> ContainerJson option"

fun parse_lines :: "(string \<Rightarrow> 'a option) \<Rightarrow> string list \<Rightarrow> 'a list option" where
  \<comment> \<open>\<^verbatim>\<open>.map((e) => JSON.parse(e.trim()))\<close>: the first line that fails ends it\<close>
  "parse_lines p [] = Some []"
| "parse_lines p (e # es) =
     (case p (trim e) of
        None \<Rightarrow> None
      | Some v \<Rightarrow> (case parse_lines p es of None \<Rightarrow> None | Some vs \<Rightarrow> Some (v # vs)))"

definition parseDockerJsonLines :: "(string \<Rightarrow> 'a option) \<Rightarrow> string \<Rightarrow> 'a list option" where
  "parseDockerJsonLines p output =
     parse_lines p (filter (\<lambda>e. trim e \<noteq> []) (split_str CHR ''\<newline>'' output))"

definition getSingleComposeStatus :: "docker \<Rightarrow> string \<Rightarrow> ContainerJson list option" where
  \<comment> \<open>\<open>None\<close> is \<^verbatim>\<open>null\<close>: the spawn failed, printed nothing, or a line did not parse\<close>
  "getSingleComposeStatus d composeName =
     (case docker_ps d composeName of
        SpawnFailed \<Rightarrow> None
      | Stdout out \<Rightarrow> if out = [] then None else parseDockerJsonLines (parse_container d) out)"

definition expectedContainersExited :: "string \<Rightarrow> error + int option" where
  \<comment> \<open>\<^verbatim>\<open>parseInt(status.split("(")[1].split(")")[0])\<close>: without a second part the call
      of \<^verbatim>\<open>split\<close> on \<^verbatim>\<open>undefined\<close> throws; \<open>Inr None\<close> is \<^verbatim>\<open>NaN\<close>\<close>
  "expectedContainersExited st =
     (case split_str CHR ''('' st of
        _ # x # _ \<Rightarrow>
          Inr (case split_str CHR '')'' x of
                 [] \<Rightarrow> None
               | y # _ \<Rightarrow> parseInt y)
      | _ \<Rightarrow> Inl TypeError)"

fun exit_loop :: "ContainerJson list \<Rightarrow> nat \<Rightarrow> nat option" where
  \<comment> \<open>the loop over the containers with its counter; \<open>None\<close> is the early
      \<^verbatim>\<open>return EXITED\<close>\<close>
  "exit_loop [] cleanlyExitedContainerCount = Some cleanlyExitedContainerCount"
| "exit_loop (containerStatus # rest) cleanlyExitedContainerCount =
     (let st = trim (c_Status containerStatus)
      in if startsWith st ''exited'' then
           (if startsWith st ''exited (0)''
            then exit_loop rest (cleanlyExitedContainerCount + 1)
            else None)
         else exit_loop rest cleanlyExitedContainerCount)"

definition isComposeExitClean :: "docker \<Rightarrow> StackJson \<Rightarrow> error + status" where
  "isComposeExitClean d composeStack =
     (case expectedContainersExited (Status composeStack) of
        Inl e \<Rightarrow> Inl e
      | Inr expected \<Rightarrow>
          (case getSingleComposeStatus d (Name composeStack) of
             None \<Rightarrow> Inr EXITED
           | Some composeStatus \<Rightarrow>
               (case exit_loop composeStatus 0 of
                  None \<Rightarrow> Inr EXITED
                | Some n \<Rightarrow> if Some (int n) = expected then Inr RUNNING else Inr EXITED)))"

definition statusConvert :: "docker \<Rightarrow> StackJson \<Rightarrow> error + status" where
  "statusConvert d composeStack =
     (if startsWith (Status composeStack) ''created'' then Inr CREATED_STACK
      else if includes_str (Status composeStack) ''exited'' then isComposeExitClean d composeStack
      else if startsWith (Status composeStack) ''running'' then Inr RUNNING
      else Inr UNKNOWN)"

fun status_loop :: "docker \<Rightarrow> StackJson list \<Rightarrow> (string \<rightharpoonup> status) \<Rightarrow> (string \<rightharpoonup> status)" where
  \<comment> \<open>the loop of \<^verbatim>\<open>getStatusList\<close>; an exception leaves it with the entries set so far\<close>
  "status_loop d [] statusList = statusList"
| "status_loop d (composeStack # rest) statusList =
     (case statusConvert d composeStack of
        Inl e \<Rightarrow> statusList
      | Inr st \<Rightarrow> status_loop d rest (statusList(Name composeStack \<mapsto> st)))"

definition getStatusList :: "docker \<Rightarrow> (string \<rightharpoonup> status)" where
  "getStatusList d =
     (case compose_ls d of
        SpawnFailed \<Rightarrow> Map.empty
      | Stdout out \<Rightarrow>
          if out = [] then Map.empty
          else (case parse_stack_list d out of
                  None \<Rightarrow> Map.empty
                | Some composeList \<Rightarrow> status_loop d composeList Map.empty))"

definition updateStatus :: "docker \<Rightarrow> Stack \<Rightarrow> Stack" where
  \<comment> \<open>\<^verbatim>\<open>statusList.get(this.name) || UNKNOWN\<close>; the codes are numbers in the source, and
      \<open>UNKNOWN\<close> is taken to be the only one that can be 0\<close>
  "updateStatus d s =
     s\<lparr>status := (case getStatusList d (name s) of None \<Rightarrow> UNKNOWN | Some st \<Rightarrow> st)\<rparr>"

section \<open>Updating a stack\<close>

definition update ::
  "host \<Rightarrow> docker \<Rightarrow> DockgeSocket \<Rightarrow> Stack \<Rightarrow> world \<Rightarrow> number promise \<times> Stack \<times> world" where
  \<comment> \<open>\<open>d\<close> is what the engine answers when the status is refreshed after the pull\<close>
  "update h d socket s w =
     (case runComposeCommand h socket s ''pull'' [] ''pull'' w of
        (None, w1) \<Rightarrow> (None, s, w1)
      | (Some (Inl e), w1) \<Rightarrow> (Some (Inl e), s, w1)
      | (Some (Inr exitCode), w1) \<Rightarrow>
          (let s1 = updateStatus d s
           in if status s1 = RUNNING then
                (case runComposeCommand h socket s1 ''up''
                        [''-d'', ''--remove-orphans''] ''restart'' w1 of
                   (None, w2) \<Rightarrow> (None, s1, w2)
                 | (Some (Inl e), w2) \<Rightarrow> (Some (Inl e), s1, w2)
                 | (Some (Inr exitCode2), w2) \<Rightarrow>
                     (case runTerminalExec h socket s1 ''docker''
                             [''image'', ''prune'', ''--all'', ''--force''] ''prune images'' w2 of
                        (None, w3) \<Rightarrow> (None, s1, w3)
                      | (Some (Inl e), w3) \<Rightarrow> (Some (Inl e), s1, w3)
                      | (Some (Inr exitCode3), w3) \<Rightarrow> (Some (Inr exitCode3), s1, w3)))
              else (Some (Inr exitCode), s1, w1)))"

section \<open>Notions used in the statements\<close>

text \<open>
  The spawn that a session of the stack makes for an argument vector; the exit code a
  session ends with, if it ends (of the process, or the number read from the last word
  of the message when the spawn throws an error); the state after a session that ended;
  and the state a session that never ends leaves behind, with its terminal registered.
\<close>

definition session_call :: "host \<Rightarrow> DockgeSocket \<Rightarrow> Stack \<Rightarrow> string \<Rightarrow> string list \<Rightarrow> pty_spawn_call" where
  "session_call h socket s f argv =
     \<lparr>p_file = f, p_args = argv,
      p_name = getComposeTerminalName h (endpoint socket) (name s), p_cwd = path s,
      p_cols = TERMINAL_COLS h, p_rows = PROGRESS_TERMINAL_ROWS h\<rparr>"

definition exit_code_of :: "host \<Rightarrow> pty_outcome \<Rightarrow> number option" where
  "exit_code_of h outcome =
     (case outcome of
        Exits code \<Rightarrow> Some (Num code)
      | ThrowsError message \<Rightarrow> Some (Number h (last (split_str CHR '' '' message)))
      | ThrowsOther \<Rightarrow> None
      | NeverExits \<Rightarrow> None)"

definition next_code :: "host \<Rightarrow> world \<Rightarrow> number option" where
  "next_code h w = exit_code_of h (pty_spawn h (length (spawned w)))"

definition ended :: "host \<Rightarrow> DockgeSocket \<Rightarrow> Stack \<Rightarrow> string \<Rightarrow> string list \<Rightarrow> world \<Rightarrow> world" where
  "ended h socket s f argv w =
     w\<lparr>spawned := spawned w @
         [(session_call h socket s f argv, pty_spawn h (length (spawned w)))],
       emitted := emitted w @
         (case next_code h w of
            None \<Rightarrow> []
          | Some exitCode \<Rightarrow>
              [(socket_id socket, getComposeTerminalName h (endpoint socket) (name s),
                exitCode)])\<rparr>"

definition hung :: "host \<Rightarrow> DockgeSocket \<Rightarrow> Stack \<Rightarrow> string \<Rightarrow> string list \<Rightarrow> world \<Rightarrow> world" where
  "hung h socket s f argv w =
     register
       \<lparr>t_server = server s,
        t_name = getComposeTerminalName h (endpoint socket) (name s),
        t_file = f, t_args = argv, t_cwd = path s,
        t_rows = PROGRESS_TERMINAL_ROWS h, t_cols = TERMINAL_COLS h,
        enableKeepAlive = False, keepAliveInterval = False,
        kickDisconnectedClientsInterval = True,
        socketList = [(socket_id socket, socket)],
        ptyProcess = (pty_spawn h (length (spawned w)) = NeverExits), callback = True\<rparr>
       (w\<lparr>spawned := spawned w @
           [(session_call h socket s f argv, pty_spawn h (length (spawned w)))]\<rparr>)"

definition rejected :: "number promise" where
  "rejected = Some (Inl (Rejected ''Another operation is already running, please try again later.''))"

text \<open>
  The notions of the classification in the words of the spec: a container that exited
  with code 0, one that exited with another code, and the text of the first parenthesised
  group of an aggregate status (between the first opening parenthesis and the next
  parenthesis of either kind, or the end).
\<close>

definition exited_clean :: "ContainerJson \<Rightarrow> bool" where
  "exited_clean c = startsWith (trim (c_Status c)) ''exited (0)''"

definition exited_nonzero :: "ContainerJson \<Rightarrow> bool" where
  "exited_nonzero c =
     (startsWith (trim (c_Status c)) ''exited'' \<and> \<not> startsWith (trim (c_Status c)) ''exited (0)'')"

definition first_parenthesized :: "string \<Rightarrow> string" where
  "first_parenthesized st =
     takeWhile (\<lambda>c. c \<noteq> CHR '')'')
       (takeWhile (\<lambda>c. c \<noteq> CHR ''('') (drop 1 (dropWhile (\<lambda>c. c \<noteq> CHR ''('') st)))"

text \<open>
  The classification in the words of the spec: the expected count is the number of
  exited containers that the aggregate status gives, the number in parentheses after
  \<open>exited\<close>.
\<close>

fun after_first :: "string \<Rightarrow> string \<Rightarrow> string option" where
  \<comment> \<open>what follows the first occurrence of \<open>pat\<close>\<close>
  "after_first pat [] = (if pat = [] then Some [] else None)"
| "after_first pat (c # s) =
     (if startsWith (c # s) pat then Some (drop (length pat) (c # s))
      else after_first pat s)"

definition spec_expected_exited :: "string \<Rightarrow> int option" where
  "spec_expected_exited st =
     (case after_first ''exited('' st of
        None \<Rightarrow> None
      | Some r \<Rightarrow> parseInt (takeWhile (\<lambda>c. c \<noteq> CHR '')'') r))"

definition spec_isComposeExitClean :: "docker \<Rightarrow> StackJson \<Rightarrow> status" where
  "spec_isComposeExitClean d composeStack =
     (case getSingleComposeStatus d (Name composeStack) of
        None \<Rightarrow> EXITED
      | Some composeStatus \<Rightarrow>
          if \<exists>c \<in> set composeStatus. exited_nonzero c then EXITED
          else if Some (int (length (filter exited_clean composeStatus)))
                    = spec_expected_exited (Status composeStack)
          then RUNNING else EXITED)"

text \<open>
  The value an accessor returns: the cached one, else the content of the file, else the
  empty default.
\<close>

definition content :: "filesystem \<Rightarrow> Stack \<Rightarrow> fspath \<Rightarrow> string \<Rightarrow> string" where
  "content fs s filePath cacheKey =
     (case fileCache s cacheKey of
        Some v \<Rightarrow> v
      | None \<Rightarrow> (case readFileSync fs filePath of Inr c \<Rightarrow> c | Inl e \<Rightarrow> ''''))"

section \<open>Example inputs\<close>

text \<open>A stacks directory \<^verbatim>\<open>/opt/stacks\<close> with the project \<^verbatim>\<open>web\<close>, used to run the model.\<close>

definition ex_server :: DockgeServer where
  "ex_server = \<lparr>stacksDir = [''opt'', ''stacks'']\<rparr>"

definition ex_web :: Stack where
  "ex_web = \<lparr>name = ''web'', status = UNKNOWN, composeFileName = ''compose.yaml'',
             composeOverrideFileName = ''compose.override.yaml'', fileCache = Map.empty,
             server = ex_server\<rparr>"

definition ex_accepted :: "string list" where
  "ex_accepted = [''compose.yaml'', ''docker-compose.yaml'', ''docker-compose.yml'', ''compose.yml'']"

definition ex_acceptedOverride :: "string list" where
  "ex_acceptedOverride = [''compose.override.yaml'', ''compose.override.yml'']"

definition ex_files :: filesystem where
  \<comment> \<open>the project directory with a primary definition under its third accepted name\<close>
  "ex_files =
     [[''opt'', ''stacks''] \<mapsto> Dir,
      [''opt'', ''stacks'', ''web''] \<mapsto> Dir,
      [''opt'', ''stacks'', ''web'', ''docker-compose.yml''] \<mapsto> File ''services: {}'',
      [''opt'', ''stacks'', ''web'', ''compose.yml''] \<mapsto> File ''services: {}'']"

definition ex_files_override :: filesystem where
  \<comment> \<open>the project directory with an override file only\<close>
  "ex_files_override =
     [[''opt'', ''stacks''] \<mapsto> Dir,
      [''opt'', ''stacks'', ''web''] \<mapsto> Dir,
      [''opt'', ''stacks'', ''web'', ''compose.override.yml''] \<mapsto> File ''services: {}'']"

definition ex_files_global :: filesystem where
  \<comment> \<open>a shared environment file in the stacks directory, none in the project\<close>
  "ex_files_global = ex_files([''opt'', ''stacks'', ''global.env''] \<mapsto> File ''TZ=UTC'')"

definition ex_socket :: DockgeSocket where
  "ex_socket = \<lparr>socket_id = ''s1'', endpoint = '''', connected = True\<rparr>"

text \<open>
  A session-name function of the shape the spec describes: a deterministic function of the
  operation family, the endpoint and the project name.
\<close>

definition ex_terminalName :: "string \<Rightarrow> string \<Rightarrow> string" where
  "ex_terminalName ep stackName = ''compose-'' @ ep @ ''-'' @ stackName"

text \<open>
  A stand-in for the conversion of the host language, right on the empty string and on
  strings of decimal digits; hosts in which every process exits with the same code, in
  which the spawn number \<open>k\<close> exits with a code and the others with 0, and in which every
  spawn throws an error with a message, and in which no process ever exits; a state with
  no terminal registered.
\<close>

definition ex_Number :: "string \<Rightarrow> number" where
  "ex_Number str =
     (if str = [] then Num 0
      else (case parseInt str of None \<Rightarrow> NaN | Some i \<Rightarrow> Num i))"

definition ex_host :: "(nat \<Rightarrow> pty_outcome) \<Rightarrow> host" where
  "ex_host answers =
     \<lparr>getComposeTerminalName = ex_terminalName, PROGRESS_TERMINAL_ROWS = 8,
      TERMINAL_COLS = 105, TERMINAL_ROWS = 10, pty_spawn = answers, Number = ex_Number\<rparr>"

definition ex_exit :: "int \<Rightarrow> nat \<Rightarrow> pty_outcome" where
  "ex_exit code n = Exits code"

definition ex_exit_at :: "nat \<Rightarrow> int \<Rightarrow> nat \<Rightarrow> pty_outcome" where
  "ex_exit_at k code n = (if n = k then Exits code else Exits 0)"


definition ex_never :: "nat \<Rightarrow> pty_outcome" where
  "ex_never n = NeverExits"

definition ex_world :: world where
  "ex_world = \<lparr>files = ex_files, terminalMap = Map.empty, spawned = [], emitted = []\<rparr>"

definition ex_world_busy :: world where
  \<comment> \<open>the state in which a pull of the project never ends\<close>
  "ex_world_busy =
     hung (ex_host ex_never) ex_socket ex_web ''docker'' [''compose'', ''pull''] ex_world"



text \<open>
  An engine that lists the one project \<open>web\<close> with a given aggregate status and prints a
  given text for its containers; the stand-in for the JSON parser reads each line as the
  status text of a container.
\<close>

definition ex_parse_container :: "string \<Rightarrow> ContainerJson option" where
  "ex_parse_container line =
     Some \<lparr>c_Name = '''', c_Service = '''', c_State = '''', c_Status = line, c_Health = ''''\<rparr>"

definition ex_docker :: "string \<Rightarrow> string \<Rightarrow> docker" where
  "ex_docker aggregate containers =
     \<lparr>compose_ls = Stdout ''[...]'',
      docker_ps = (\<lambda>composeName. Stdout containers),
      parse_stack_list =
        (\<lambda>out. Some [\<lparr>Name = ''web'', Status = aggregate, ConfigFiles = ''''\<rparr>]),
      parse_container = ex_parse_container\<rparr>"

text \<open>An engine that cannot be spawned, and aggregate status records of the project.\<close>

definition ex_docker_unreachable :: docker where
  "ex_docker_unreachable =
     \<lparr>compose_ls = SpawnFailed, docker_ps = (\<lambda>composeName. SpawnFailed),
      parse_stack_list = (\<lambda>out. None), parse_container = ex_parse_container\<rparr>"

definition ex_stack_json :: "string \<Rightarrow> StackJson" where
  "ex_stack_json aggregate = \<lparr>Name = ''web'', Status = aggregate, ConfigFiles = ''''\<rparr>"

text \<open>
  Three containers that exited with code 0; the same with one that exited with 137; one
  failed container under an aggregate status that begins with \<open>running\<close>.
\<close>

definition ex_three_clean :: docker where
  "ex_three_clean =
     ex_docker ''exited(3)''
       ''exited (0) 2 hours ago\<newline>exited (0) 2 hours ago\<newline>  exited (0) 3 hours ago\<newline>''"

definition ex_one_failed :: docker where
  "ex_one_failed =
     ex_docker ''exited(3)''
       ''exited (0) 2 hours ago\<newline>exited (137) 2 hours ago\<newline>exited (0) 3 hours ago\<newline>''"

definition ex_running_exited :: docker where
  "ex_running_exited = ex_docker ''running(1), exited(1)'' ''exited (1) 2 hours ago''"

text \<open>
  A stand-in for the YAML parser that rejects a text with an unclosed bracket; a project
  with the three artifacts given to the constructor; the files after an empty primary
  definition was written.
\<close>

definition ex_yaml_ok :: "string \<Rightarrow> bool" where
  "ex_yaml_ok y = (if CHR ''['' \<in> set y then CHR '']'' \<in> set y else True)"

definition ex_cached :: "string \<Rightarrow> string \<Rightarrow> string \<Rightarrow> string \<Rightarrow> Stack" where
  "ex_cached n yaml ov env =
     ex_web\<lparr>name := n,
             fileCache := [''compose'' \<mapsto> yaml, ''override'' \<mapsto> ov, ''env'' \<mapsto> env]\<rparr>"


text \<open>
  Two dead containers and one that exited with code 0; the project directory with a
  primary definition under the default name and an environment file.
\<close>

definition ex_dead_exited :: docker where
  "ex_dead_exited =
     ex_docker ''dead(2), exited(1)'' ''dead\<newline>dead\<newline>exited (0) 2 hours ago''"


section \<open>Properties of the string functions\<close>

lemma split_str_not_Nil: "split_str sep s \<noteq> []"
  by (induction s) (auto split: list.splits)

lemma split_str_no_sep: "sep \<notin> set s \<Longrightarrow> split_str sep s = [s]"
  by (induction s) auto

lemma split_str_sep_length: "sep \<in> set s \<Longrightarrow> length (split_str sep s) \<ge> 2"
proof (induction s)
  case Nil
  then show ?case by simp
next
  case (Cons c s)
  show ?case
  proof (cases "c = sep")
    case True
    then show ?thesis
      using split_str_not_Nil [of sep s] by (cases "split_str sep s") auto
  next
    case False
    with Cons show ?thesis by (auto split: list.splits)
  qed
qed

lemma includes_str_single: "includes_str s [c] = (c \<in> set s)"
  by (induction s) (auto simp: startsWith_def)

lemma path_join_plain:
  "CHR ''/'' \<notin> set n \<Longrightarrow> n \<noteq> [] \<Longrightarrow> n \<noteq> ''.'' \<Longrightarrow> n \<noteq> ''..'' \<Longrightarrow>
   path_join dir n = dir @ [n]"
  by (simp add: path_join_def split_str_no_sep join_step_def)

lemmas ex_defs = existsSync_def path_join_plain path_def ex_files_def ex_web_def ex_server_def

section \<open>Validation of the environment file\<close>

text \<open>
  Claim C8. The validation of the environment file raises \<open>ValidationError\<close> if and only
  if the content has no newline (it is one line), is not empty and has no \<open>=\<close>; in every
  other case it passes, in particular whenever the content has a newline.
\<close>

theorem validateEnvFormat_iff:
  "(validateEnvFormat env = Inl (ValidationError ''Invalid .env format'')
      \<longleftrightarrow> CHR ''\<newline>'' \<notin> set env \<and> env \<noteq> [] \<and> CHR ''='' \<notin> set env)
   \<and> (validateEnvFormat env = Inr ()
      \<longleftrightarrow> \<not> (CHR ''\<newline>'' \<notin> set env \<and> env \<noteq> [] \<and> CHR ''='' \<notin> set env))
   \<and> (CHR ''\<newline>'' \<in> set env \<longrightarrow> validateEnvFormat env = Inr ())"
proof (cases "CHR ''\<newline>'' \<in> set env")
  case True
  then have "length (split_str CHR ''\<newline>'' env) \<noteq> 1"
    using split_str_sep_length [of "CHR ''\<newline>''" env] by simp
  with True show ?thesis by (simp add: validateEnvFormat_def Let_def)
next
  case False
  then have "split_str CHR ''\<newline>'' env = [env]" by (rule split_str_no_sep)
  with False show ?thesis
    by (simp add: validateEnvFormat_def includes_str_single)
qed

theorem validateEnvFormat_iff_witness:
  "validateEnvFormat ''FOO'' = Inl (ValidationError ''Invalid .env format'')
   \<and> validateEnvFormat ''FOO=1'' = Inr ()
   \<and> CHR ''\<newline>'' \<in> set ''FOO\<newline>BAR''
   \<and> validateEnvFormat ''FOO\<newline>BAR'' = Inr ()"
proof -
  have nl: "CHR ''\<newline>'' \<in> set ''FOO\<newline>BAR''" by simp
  have a: "validateEnvFormat ''FOO'' = Inl (ValidationError ''Invalid .env format'')"
    using validateEnvFormat_iff [of "''FOO''"] by simp
  have b: "validateEnvFormat ''FOO=1'' = Inr ()"
    using validateEnvFormat_iff [of "''FOO=1''"] by simp
  have c: "validateEnvFormat ''FOO\<newline>BAR'' = Inr ()"
    using validateEnvFormat_iff [of "''FOO\<newline>BAR''"] nl by blast
  from a b c nl show ?thesis by blast
qed

section \<open>Discovery of the artifact file names\<close>

lemma findComposeFileName_none:
  "\<forall>f \<in> set accepted. \<not> existsSync fs (path_join dir f) \<Longrightarrow>
   findComposeFileName fs dir accepted = ''compose.yaml''"
  by (induction accepted) auto

lemma findComposeOverrideFileName_none:
  "\<forall>f \<in> set accepted. \<not> existsSync fs (path_join dir f) \<Longrightarrow>
   findComposeOverrideFileName fs dir accepted = ''compose.override.yaml''"
  by (induction accepted) auto

lemma findComposeFileName_first:
  "\<exists>f \<in> set accepted. existsSync fs (path_join dir f) \<Longrightarrow>
   \<exists>i < length accepted. findComposeFileName fs dir accepted = accepted ! i
      \<and> existsSync fs (path_join dir (accepted ! i))
      \<and> (\<forall>j < i. \<not> existsSync fs (path_join dir (accepted ! j)))"
proof (induction accepted)
  case Nil
  then show ?case by simp
next
  case (Cons a accepted)
  show ?case
  proof (cases "existsSync fs (path_join dir a)")
    case True
    then show ?thesis by (intro exI [of _ 0]) simp
  next
    case False
    with Cons.prems have "\<exists>f \<in> set accepted. existsSync fs (path_join dir f)" by auto
    from Cons.IH [OF this] obtain i where i: "i < length accepted"
      "findComposeFileName fs dir accepted = accepted ! i"
      "existsSync fs (path_join dir (accepted ! i))"
      "\<forall>j < i. \<not> existsSync fs (path_join dir (accepted ! j))" by blast
    have "\<forall>j < Suc i. \<not> existsSync fs (path_join dir ((a # accepted) ! j))"
      using False i(4) by (auto simp: less_Suc_eq_0_disj)
    moreover have "findComposeFileName fs dir (a # accepted) = (a # accepted) ! Suc i"
      using False i(2) by simp
    moreover have "existsSync fs (path_join dir ((a # accepted) ! Suc i))"
      using i(3) by simp
    moreover have "Suc i < length (a # accepted)" using i(1) by simp
    ultimately show ?thesis by blast
  qed
qed

lemma findComposeOverrideFileName_first:
  "\<exists>f \<in> set accepted. existsSync fs (path_join dir f) \<Longrightarrow>
   \<exists>i < length accepted. findComposeOverrideFileName fs dir accepted = accepted ! i
      \<and> existsSync fs (path_join dir (accepted ! i))
      \<and> (\<forall>j < i. \<not> existsSync fs (path_join dir (accepted ! j)))"
proof (induction accepted)
  case Nil
  then show ?case by simp
next
  case (Cons a accepted)
  show ?case
  proof (cases "existsSync fs (path_join dir a)")
    case True
    then show ?thesis by (intro exI [of _ 0]) simp
  next
    case False
    with Cons.prems have "\<exists>f \<in> set accepted. existsSync fs (path_join dir f)" by auto
    from Cons.IH [OF this] obtain i where i: "i < length accepted"
      "findComposeOverrideFileName fs dir accepted = accepted ! i"
      "existsSync fs (path_join dir (accepted ! i))"
      "\<forall>j < i. \<not> existsSync fs (path_join dir (accepted ! j))" by blast
    have "\<forall>j < Suc i. \<not> existsSync fs (path_join dir ((a # accepted) ! j))"
      using False i(4) by (auto simp: less_Suc_eq_0_disj)
    moreover have "findComposeOverrideFileName fs dir (a # accepted) = (a # accepted) ! Suc i"
      using False i(2) by simp
    moreover have "existsSync fs (path_join dir ((a # accepted) ! Suc i))"
      using i(3) by simp
    moreover have "Suc i < length (a # accepted)" using i(1) by simp
    ultimately show ?thesis by blast
  qed
qed

lemma new_Stack_names:
  "composeFileName (new_Stack accepted acceptedOverride fs srv n yaml env ov False) =
     findComposeFileName fs (path (new_Stack accepted acceptedOverride fs srv n yaml env ov False))
       accepted"
  "composeOverrideFileName (new_Stack accepted acceptedOverride fs srv n yaml env ov False) =
     findComposeOverrideFileName fs
       (path (new_Stack accepted acceptedOverride fs srv n yaml env ov False)) acceptedOverride"
  by (simp_all add: new_Stack_def path_def Let_def)

text \<open>
  Claim C10. The discovery of the primary and of the override file name returns the
  first accepted name that exists in the project directory (it is an accepted name, it
  exists, and no accepted name before it exists); when no accepted name exists it returns
  \<open>compose.yaml\<close> and \<open>compose.override.yaml\<close> respectively. The constructor runs the
  discovery in the directory of the project it builds.
\<close>

theorem findComposeFileName_first_existing:
  "((\<exists>f \<in> set accepted. existsSync fs (path_join dir f)) \<longrightarrow>
      (\<exists>i < length accepted. findComposeFileName fs dir accepted = accepted ! i
          \<and> existsSync fs (path_join dir (accepted ! i))
          \<and> (\<forall>j < i. \<not> existsSync fs (path_join dir (accepted ! j)))))
   \<and> ((\<forall>f \<in> set accepted. \<not> existsSync fs (path_join dir f)) \<longrightarrow>
      findComposeFileName fs dir accepted = ''compose.yaml'')
   \<and> ((\<exists>f \<in> set acceptedOverride. existsSync fs (path_join dir f)) \<longrightarrow>
      (\<exists>i < length acceptedOverride.
          findComposeOverrideFileName fs dir acceptedOverride = acceptedOverride ! i
          \<and> existsSync fs (path_join dir (acceptedOverride ! i))
          \<and> (\<forall>j < i. \<not> existsSync fs (path_join dir (acceptedOverride ! j)))))
   \<and> ((\<forall>f \<in> set acceptedOverride. \<not> existsSync fs (path_join dir f)) \<longrightarrow>
      findComposeOverrideFileName fs dir acceptedOverride = ''compose.override.yaml'')
   \<and> composeFileName (new_Stack accepted acceptedOverride fs srv n yaml env ov False) =
       findComposeFileName fs (path (new_Stack accepted acceptedOverride fs srv n yaml env ov False))
         accepted
   \<and> composeOverrideFileName (new_Stack accepted acceptedOverride fs srv n yaml env ov False) =
       findComposeOverrideFileName fs
         (path (new_Stack accepted acceptedOverride fs srv n yaml env ov False)) acceptedOverride"
  using new_Stack_names [of accepted acceptedOverride fs srv n yaml env ov]
    findComposeFileName_first [of accepted fs dir]
    findComposeFileName_none [of accepted fs dir]
    findComposeOverrideFileName_first [of acceptedOverride fs dir]
    findComposeOverrideFileName_none [of acceptedOverride fs dir]
  by blast

theorem findComposeFileName_first_existing_witness:
  "(\<exists>f \<in> set ex_accepted. existsSync ex_files (path_join (path ex_web) f))
   \<and> (\<exists>i < length ex_accepted.
         findComposeFileName ex_files (path ex_web) ex_accepted = ex_accepted ! i
         \<and> existsSync ex_files (path_join (path ex_web) (ex_accepted ! i))
         \<and> (\<forall>j < i. \<not> existsSync ex_files (path_join (path ex_web) (ex_accepted ! j))))
   \<and> \<not> (\<exists>f \<in> set ex_acceptedOverride. existsSync ex_files (path_join (path ex_web) f))
   \<and> findComposeOverrideFileName ex_files (path ex_web) ex_acceptedOverride
        = ''compose.override.yaml''
   \<and> \<not> (\<exists>f \<in> set ex_accepted. existsSync ex_files_override (path_join (path ex_web) f))
   \<and> findComposeFileName ex_files_override (path ex_web) ex_accepted = ''compose.yaml''
   \<and> (\<exists>f \<in> set ex_acceptedOverride. existsSync ex_files_override (path_join (path ex_web) f))
   \<and> (\<exists>i < length ex_acceptedOverride.
         findComposeOverrideFileName ex_files_override (path ex_web) ex_acceptedOverride
           = ex_acceptedOverride ! i
         \<and> existsSync ex_files_override (path_join (path ex_web) (ex_acceptedOverride ! i))
         \<and> (\<forall>j < i. \<not> existsSync ex_files_override
                          (path_join (path ex_web) (ex_acceptedOverride ! j))))"
proof -
  have h1: "\<exists>f \<in> set ex_accepted. existsSync ex_files (path_join (path ex_web) f)"
    by (simp add: ex_defs ex_accepted_def ex_acceptedOverride_def ex_files_override_def)
  have h2: "\<forall>f \<in> set ex_acceptedOverride. \<not> existsSync ex_files (path_join (path ex_web) f)"
    by (simp add: ex_defs ex_accepted_def ex_acceptedOverride_def ex_files_override_def)
  have h3: "\<forall>f \<in> set ex_accepted. \<not> existsSync ex_files_override (path_join (path ex_web) f)"
    by (simp add: ex_defs ex_accepted_def ex_acceptedOverride_def ex_files_override_def)
  have h4: "\<exists>f \<in> set ex_acceptedOverride.
              existsSync ex_files_override (path_join (path ex_web) f)"
    by (simp add: ex_defs ex_accepted_def ex_acceptedOverride_def ex_files_override_def)
  show ?thesis
    using h1 h2 h3 h4
      findComposeFileName_first_existing
        [of ex_accepted ex_files "path ex_web" ex_acceptedOverride]
      findComposeFileName_first_existing
        [of ex_accepted ex_files_override "path ex_web" ex_acceptedOverride]
    by blast
qed

section \<open>The argument vector of the compose tool\<close>

text \<open>
  Claim C7, as amended. The argument vector is \<open>compose\<close>, the command and the extra
  options when no shared \<open>global.env\<close> exists in the stacks directory (whether or not
  the project has a \<open>.env\<close>). When the shared file exists, \<open>--env-file ../global.env\<close> is
  inserted after \<open>compose\<close>; when the project-local \<open>.env\<close> exists as well,
  \<open>--env-file ./.env\<close> is inserted before it.
\<close>

theorem getComposeOptions_env_files:
  "getComposeOptions fs s command extraOptions =
     (if \<not> existsSync fs (path_join (stacksDir (server s)) ''global.env'')
      then [''compose'', command] @ extraOptions
      else if \<not> existsSync fs (path_join (path s) ''.env'')
      then [''compose'', ''--env-file'', ''../global.env'', command] @ extraOptions
      else [''compose'', ''--env-file'', ''./.env'', ''--env-file'', ''../global.env'', command]
             @ extraOptions)"
  by (simp add: getComposeOptions_def splice_insert_def)

text \<open>
  With a shared file and no project-local one the vector is augmented all the same.
\<close>

theorem getComposeOptions_global_only_counterexample:
  "existsSync ex_files_global (path_join (stacksDir (server ex_web)) ''global.env'')
   \<and> \<not> existsSync ex_files_global (path_join (path ex_web) ''.env'')
   \<and> getComposeOptions ex_files_global ex_web ''up'' [''-d'']
        = [''compose'', ''--env-file'', ''../global.env'', ''up'', ''-d'']
   \<and> getComposeOptions ex_files_global ex_web ''up'' [''-d''] \<noteq> [''compose'', ''up'', ''-d'']"
  by (simp add: getComposeOptions_def splice_insert_def ex_defs ex_files_global_def)

section \<open>Running a command in a one-shot session\<close>

lemma ended_fields:
  "files (ended h socket s f argv w) = files w"
  "terminalMap (ended h socket s f argv w) = terminalMap w"
  "length (spawned (ended h socket s f argv w)) = Suc (length (spawned w))"
  by (simp_all add: ended_def)


lemma Terminal_exec_eq:
  "Terminal_exec h (server s) (Some socket)
     (getComposeTerminalName h (endpoint socket) (name s)) f argv (path s) w =
     (if terminalMap w (getComposeTerminalName h (endpoint socket) (name s)) \<noteq> None
      then (rejected, w)
      else (case next_code h w of
              None \<Rightarrow> (None, hung h socket s f argv w)
            | Some exitCode \<Rightarrow> (Some (Inr exitCode), ended h socket s f argv w)))"
proof (cases "terminalMap w (getComposeTerminalName h (endpoint socket) (name s)) = None")
  case False
  then show ?thesis by (simp add: Terminal_exec_def rejected_def)
next
  case True
  show ?thesis
  proof (cases "pty_spawn h (length (spawned w))")
    case (ThrowsError message)
    with True show ?thesis
      by (simp add: Terminal_exec_def new_Terminal_def set_rows_def join_def onExit_def
          start_def register_def exit_def next_code_def exit_code_of_def ended_def
          session_call_def fun_upd_idem Let_def)
  next
    case ThrowsOther
    with True show ?thesis
      by (simp add: Terminal_exec_def new_Terminal_def set_rows_def join_def onExit_def
          start_def register_def next_code_def exit_code_of_def hung_def
          session_call_def Let_def)
  next
    case (Exits code)
    with True show ?thesis
      by (simp add: Terminal_exec_def new_Terminal_def set_rows_def join_def onExit_def
          start_def register_def exit_def next_code_def exit_code_of_def ended_def
          session_call_def fun_upd_idem Let_def)
  next
    case NeverExits
    with True show ?thesis
      by (simp add: Terminal_exec_def new_Terminal_def set_rows_def join_def onExit_def
          start_def register_def next_code_def exit_code_of_def hung_def
          session_call_def Let_def)
  qed
qed

lemma runTerminalExec_eq:
  "runTerminalExec h socket s f argv actionDescription w =
     (if terminalMap w (getComposeTerminalName h (endpoint socket) (name s)) \<noteq> None
      then (rejected, w)
      else (case next_code h w of
              None \<Rightarrow> (None, hung h socket s f argv w)
            | Some exitCode \<Rightarrow>
                (Some (if exitCode = Num 0 then Inr (Num 0)
                       else Inl (Error (getErrorMessage actionDescription))),
                 ended h socket s f argv w)))"
  by (simp add: runTerminalExec_def Terminal_exec_eq rejected_def split: option.splits)

lemma runComposeCommand_eq:
  "runComposeCommand h socket s command argv actionDescription w =
     (if terminalMap w (getComposeTerminalName h (endpoint socket) (name s)) \<noteq> None
      then (rejected, w)
      else (case next_code h w of
              None \<Rightarrow>
                (None, hung h socket s ''docker'' (getComposeOptions (files w) s command argv) w)
            | Some exitCode \<Rightarrow>
                (Some (if exitCode = Num 0 then Inr (Num 0)
                       else Inl (Error (getErrorMessage actionDescription))),
                 ended h socket s ''docker'' (getComposeOptions (files w) s command argv) w)))"
  by (simp add: runComposeCommand_def runTerminalExec_eq Let_def)





section \<open>Deleting a stack\<close>



lemma path_join_parent: "path_join dir ''..'' = butlast dir"
  by (simp add: path_join_def join_step_def)




section \<open>Updating a stack\<close>

lemma updateStatus_fields:
  "name (updateStatus d s) = name s" "server (updateStatus d s) = server s"
  "path (updateStatus d s) = path s"
  by (simp_all add: updateStatus_def path_def)

lemma getComposeOptions_updateStatus:
  "getComposeOptions fs (updateStatus d s) command argv = getComposeOptions fs s command argv"
  by (simp add: getComposeOptions_def updateStatus_fields Let_def cong: if_cong)

lemma ended_updateStatus:
  "ended h socket (updateStatus d s) f argv w = ended h socket s f argv w"
  by (simp add: ended_def session_call_def updateStatus_fields split: option.splits)

lemma hung_updateStatus:
  "hung h socket (updateStatus d s) f argv w = hung h socket s f argv w"
  by (simp add: hung_def session_call_def updateStatus_fields)

text \<open>
  Claim C4, as amended. \<open>update\<close> first pulls the images, in a one-shot session; when the
  session name is taken it is rejected and nothing is run. When a session never ends,
  \<open>update\<close> never returns. When the pull ends with a code other than 0, \<open>update\<close> raises
  an \<open>Error\<close> with the message of the action (it does not return the exit code) and
  nothing else is run. Otherwise the status is refreshed, and only if it is \<open>RUNNING\<close> the
  containers are recreated with \<open>up -d --remove-orphans\<close> and then the images are pruned;
  a step that ends with a code other than 0 raises its error and ends the sequence. Each
  session that ended has left the session name free for the next. The spawns of the
  steps that were run stay recorded and the files are untouched: nothing is undone. When
  no step fails the result is 0.
\<close>

theorem update_steps:
  "update h d socket s w =
     (let s1 = updateStatus d s;
          pull = getComposeOptions (files w) s ''pull'' [];
          up = getComposeOptions (files w) s ''up'' [''-d'', ''--remove-orphans''];
          prune = [''image'', ''prune'', ''--all'', ''--force''];
          w1 = ended h socket s ''docker'' pull w;
          w2 = ended h socket s ''docker'' up w1;
          w3 = ended h socket s ''docker'' prune w2
      in if terminalMap w (getComposeTerminalName h (endpoint socket) (name s)) \<noteq> None
         then (rejected, s, w)
         else (case next_code h w of
                 None \<Rightarrow> (None, s, hung h socket s ''docker'' pull w)
               | Some c1 \<Rightarrow>
                   if c1 \<noteq> Num 0
                   then (Some (Inl (Error (getErrorMessage ''pull''))), s, w1)
                   else if status s1 \<noteq> RUNNING then (Some (Inr (Num 0)), s1, w1)
                   else (case next_code h w1 of
                           None \<Rightarrow> (None, s1, hung h socket s ''docker'' up w1)
                         | Some c2 \<Rightarrow>
                             if c2 \<noteq> Num 0
                             then (Some (Inl (Error (getErrorMessage ''restart''))), s1, w2)
                             else (case next_code h w2 of
                                     None \<Rightarrow> (None, s1, hung h socket s ''docker'' prune w2)
                                   | Some c3 \<Rightarrow>
                                       if c3 \<noteq> Num 0
                                       then (Some (Inl (Error (getErrorMessage
                                               ''prune images''))), s1, w3)
                                       else (Some (Inr (Num 0)), s1, w3)))))
   \<and> files (ended h socket s f argv w) = files w
   \<and> terminalMap (ended h socket s f argv w) = terminalMap w
   \<and> spawned (ended h socket s f argv w) =
       spawned w @ [(session_call h socket s f argv, pty_spawn h (length (spawned w)))]"
proof -
  let ?n = "getComposeTerminalName h (endpoint socket) (name s)"
  let ?pull = "getComposeOptions (files w) s ''pull'' []"
  let ?up = "getComposeOptions (files w) s ''up'' [''-d'', ''--remove-orphans'']"
  let ?w1 = "ended h socket s ''docker'' ?pull w"
  let ?w2 = "ended h socket s ''docker'' ?up ?w1"
  have e: "files (ended h socket s f argv w) = files w
     \<and> terminalMap (ended h socket s f argv w) = terminalMap w
     \<and> spawned (ended h socket s f argv w) =
         spawned w @ [(session_call h socket s f argv, pty_spawn h (length (spawned w)))]"
    by (simp add: ended_def)
  have u: "update h d socket s w =
     (if terminalMap w ?n \<noteq> None then (rejected, s, w)
      else (case next_code h w of
              None \<Rightarrow> (None, s, hung h socket s ''docker'' ?pull w)
            | Some c1 \<Rightarrow>
                if c1 \<noteq> Num 0
                then (Some (Inl (Error (getErrorMessage ''pull''))), s, ?w1)
                else if status (updateStatus d s) \<noteq> RUNNING
                then (Some (Inr (Num 0)), updateStatus d s, ?w1)
                else (case next_code h ?w1 of
                        None \<Rightarrow> (None, updateStatus d s, hung h socket s ''docker'' ?up ?w1)
                      | Some c2 \<Rightarrow>
                          if c2 \<noteq> Num 0
                          then (Some (Inl (Error (getErrorMessage ''restart''))),
                                updateStatus d s, ?w2)
                          else (case next_code h ?w2 of
                                  None \<Rightarrow>
                                    (None, updateStatus d s,
                                     hung h socket s ''docker''
                                       [''image'', ''prune'', ''--all'', ''--force''] ?w2)
                                | Some c3 \<Rightarrow>
                                    if c3 \<noteq> Num 0
                                    then (Some (Inl (Error (getErrorMessage
                                            ''prune images''))), updateStatus d s,
                                          ended h socket s ''docker''
                                            [''image'', ''prune'', ''--all'', ''--force''] ?w2)
                                    else (Some (Inr (Num 0)), updateStatus d s,
                                          ended h socket s ''docker''
                                            [''image'', ''prune'', ''--all'', ''--force'']
                                            ?w2)))))"
  proof (cases "terminalMap w ?n = None")
    case False
    then show ?thesis by (simp add: update_def runComposeCommand_eq rejected_def)
  next
    case free: True
    show ?thesis
    proof (cases "next_code h w")
      case None
      with free show ?thesis by (simp add: update_def runComposeCommand_eq)
    next
      case c1: (Some c1)
      show ?thesis
      proof (cases "c1 = Num 0 \<and> status (updateStatus d s) = RUNNING")
        case False
        with free c1 show ?thesis by (auto simp: update_def runComposeCommand_eq Let_def)
      next
        case run: True
        show ?thesis
        proof (cases "next_code h ?w1")
          case None
          with free c1 run show ?thesis
            by (simp add: update_def runComposeCommand_eq Let_def ended_fields
                updateStatus_fields getComposeOptions_updateStatus hung_updateStatus)
        next
          case c2: (Some c2)
          show ?thesis
          proof (cases "c2 = Num 0")
            case False
            with free c1 run c2 show ?thesis
              by (simp add: update_def runComposeCommand_eq Let_def ended_fields
                  updateStatus_fields getComposeOptions_updateStatus ended_updateStatus)
          next
            case z: True
            show ?thesis
            proof (cases "next_code h ?w2")
              case None
              with free c1 run c2 z show ?thesis
                by (simp add: update_def runComposeCommand_eq runTerminalExec_eq Let_def
                    ended_fields updateStatus_fields getComposeOptions_updateStatus
                    ended_updateStatus hung_updateStatus)
            next
              case (Some c3)
              with free c1 run c2 z show ?thesis
                by (simp add: update_def runComposeCommand_eq runTerminalExec_eq Let_def
                    ended_fields updateStatus_fields getComposeOptions_updateStatus
                    ended_updateStatus hung_updateStatus)
            qed
          qed
        qed
      qed
    qed
  qed
  show ?thesis
    unfolding Let_def using u e by (simp only: simp_thms)
qed

lemma ex_running: "status (updateStatus (ex_docker ''running(1)'' ''Up 2 hours'') ex_web) = RUNNING"
  by (simp add: updateStatus_def getStatusList_def ex_docker_def statusConvert_def
      startsWith_def ex_web_def)

lemma ex_created: "status (updateStatus (ex_docker ''created(1)'' ''Created'') ex_web) = CREATED_STACK"
  by (simp add: updateStatus_def getStatusList_def ex_docker_def statusConvert_def
      startsWith_def ex_web_def)

theorem update_steps_witness:
  "fst (update (ex_host (ex_exit 0)) (ex_docker ''running(1)'' ''Up 2 hours'') ex_socket
          ex_web ex_world) = Some (Inr (Num 0))
   \<and> map (p_args \<circ> fst)
        (spawned (snd (snd (update (ex_host (ex_exit 0))
           (ex_docker ''running(1)'' ''Up 2 hours'') ex_socket ex_web ex_world)))) =
       [[''compose'', ''pull''], [''compose'', ''up'', ''-d'', ''--remove-orphans''],
        [''image'', ''prune'', ''--all'', ''--force'']]
   \<and> terminalMap (snd (snd (update (ex_host (ex_exit 0))
           (ex_docker ''running(1)'' ''Up 2 hours'') ex_socket ex_web ex_world))) = Map.empty
   \<and> fst (update (ex_host (ex_exit 0)) (ex_docker ''created(1)'' ''Created'') ex_socket
          ex_web ex_world) = Some (Inr (Num 0))
   \<and> map (p_args \<circ> fst)
        (spawned (snd (snd (update (ex_host (ex_exit 0))
           (ex_docker ''created(1)'' ''Created'') ex_socket ex_web ex_world)))) =
       [[''compose'', ''pull'']]
   \<and> fst (update (ex_host (ex_exit_at 1 3)) (ex_docker ''running(1)'' ''Up 2 hours'')
          ex_socket ex_web ex_world) =
       Some (Inl (Error
         ''Failed to restart, please check the terminal output for more information.''))
   \<and> map (p_args \<circ> fst)
        (spawned (snd (snd (update (ex_host (ex_exit_at 1 3))
           (ex_docker ''running(1)'' ''Up 2 hours'') ex_socket ex_web ex_world)))) =
       [[''compose'', ''pull''], [''compose'', ''up'', ''-d'', ''--remove-orphans'']]
   \<and> update (ex_host (ex_exit 0)) (ex_docker ''running(1)'' ''Up 2 hours'') ex_socket
          ex_web ex_world_busy = (rejected, ex_web, ex_world_busy)
   \<and> fst (update (ex_host ex_never) (ex_docker ''running(1)'' ''Up 2 hours'') ex_socket
          ex_web ex_world) = None"
proof -
  note a = update_steps [where h = "ex_host (ex_exit 0)"
      and d = "ex_docker ''running(1)'' ''Up 2 hours''" and socket = ex_socket and s = ex_web
      and w = ex_world]
  note b = update_steps [where h = "ex_host (ex_exit 0)"
      and d = "ex_docker ''created(1)'' ''Created''" and socket = ex_socket and s = ex_web
      and w = ex_world]
  note c = update_steps [where h = "ex_host (ex_exit_at 1 3)"
      and d = "ex_docker ''running(1)'' ''Up 2 hours''" and socket = ex_socket and s = ex_web
      and w = ex_world]
  note r = update_steps [where h = "ex_host (ex_exit 0)"
      and d = "ex_docker ''running(1)'' ''Up 2 hours''" and socket = ex_socket and s = ex_web
      and w = ex_world_busy]
  note n = update_steps [where h = "ex_host ex_never"
      and d = "ex_docker ''running(1)'' ''Up 2 hours''" and socket = ex_socket and s = ex_web
      and w = ex_world]
  have g: "getComposeOptions ex_files ex_web command argv = [''compose'', command] @ argv"
    for command argv
    by (simp add: getComposeOptions_def ex_defs)
  have busy: "terminalMap ex_world_busy
      (getComposeTerminalName (ex_host (ex_exit 0)) (endpoint ex_socket) (name ex_web)) \<noteq> None"
    by (simp add: ex_world_busy_def hung_def register_def ex_host_def)
  have 1: "fst (update (ex_host (ex_exit 0)) (ex_docker ''running(1)'' ''Up 2 hours'') ex_socket
          ex_web ex_world) = Some (Inr (Num 0))"
    "map (p_args \<circ> fst)
        (spawned (snd (snd (update (ex_host (ex_exit 0))
           (ex_docker ''running(1)'' ''Up 2 hours'') ex_socket ex_web ex_world)))) =
       [[''compose'', ''pull''], [''compose'', ''up'', ''-d'', ''--remove-orphans''],
        [''image'', ''prune'', ''--all'', ''--force'']]"
    "terminalMap (snd (snd (update (ex_host (ex_exit 0))
           (ex_docker ''running(1)'' ''Up 2 hours'') ex_socket ex_web ex_world))) = Map.empty"
    using a
    by (simp_all add: ex_running next_code_def exit_code_of_def ended_def session_call_def
        ex_host_def ex_exit_def ex_world_def g Let_def)
  have 2: "fst (update (ex_host (ex_exit 0)) (ex_docker ''created(1)'' ''Created'') ex_socket
          ex_web ex_world) = Some (Inr (Num 0))"
    "map (p_args \<circ> fst)
        (spawned (snd (snd (update (ex_host (ex_exit 0))
           (ex_docker ''created(1)'' ''Created'') ex_socket ex_web ex_world)))) =
       [[''compose'', ''pull'']]"
    using b
    by (simp_all add: ex_created next_code_def exit_code_of_def ended_def session_call_def
        ex_host_def ex_exit_def ex_world_def g Let_def)
  have 3: "fst (update (ex_host (ex_exit_at 1 3)) (ex_docker ''running(1)'' ''Up 2 hours'')
          ex_socket ex_web ex_world) =
       Some (Inl (Error
         ''Failed to restart, please check the terminal output for more information.''))"
    "map (p_args \<circ> fst)
        (spawned (snd (snd (update (ex_host (ex_exit_at 1 3))
           (ex_docker ''running(1)'' ''Up 2 hours'') ex_socket ex_web ex_world)))) =
       [[''compose'', ''pull''], [''compose'', ''up'', ''-d'', ''--remove-orphans'']]"
    using c
    by (simp_all add: ex_running next_code_def exit_code_of_def ended_def session_call_def
        ex_host_def ex_exit_at_def ex_world_def g getErrorMessage_def Let_def)
  have 4: "update (ex_host (ex_exit 0)) (ex_docker ''running(1)'' ''Up 2 hours'') ex_socket
          ex_web ex_world_busy = (rejected, ex_web, ex_world_busy)"
    using r busy by (simp add: Let_def)
  have 5: "fst (update (ex_host ex_never) (ex_docker ''running(1)'' ''Up 2 hours'') ex_socket
          ex_web ex_world) = None"
    using n
    by (simp add: next_code_def exit_code_of_def ex_host_def ex_never_def ex_world_def Let_def)
  from 1 2 3 4 5 show ?thesis by simp
qed

text \<open>A pull that exits with 1 makes \<open>update\<close> raise an error; it does not return 1.\<close>

theorem update_failure_counterexample:
  "fst (update (ex_host (ex_exit 1)) (ex_docker ''running(1)'' ''Up 2 hours'') ex_socket
          ex_web ex_world) =
     Some (Inl (Error ''Failed to pull, please check the terminal output for more information.''))
   \<and> fst (update (ex_host (ex_exit 1)) (ex_docker ''running(1)'' ''Up 2 hours'') ex_socket
          ex_web ex_world) \<noteq> Some (Inr (Num 1))"
  by (simp add: update_def runComposeCommand_eq next_code_def exit_code_of_def
      getErrorMessage_def ex_host_def ex_exit_def ex_world_def)

section \<open>The status classifier\<close>

lemma startsWith_append: "startsWith s (p @ q) \<Longrightarrow> startsWith s p"
  unfolding startsWith_def
  by (metis append_eq_conv_conj length_append take_add take_take min.absorb1 le_add1)

lemma exited_clean_exited:
  "startsWith st ''exited (0)'' \<Longrightarrow> startsWith st ''exited''"
  using startsWith_append [of st "''exited''" "'' (0)''"] by simp

lemma exit_loop_eq:
  "exit_loop l n =
     (if \<exists>c \<in> set l. exited_nonzero c then None
      else Some (n + length (filter exited_clean l)))"
proof (induction l arbitrary: n)
  case Nil
  then show ?case by simp
next
  case (Cons c l)
  show ?case
  proof (cases "startsWith (trim (c_Status c)) ''exited''")
    case False
    then have "\<not> exited_clean c" "\<not> exited_nonzero c"
      using exited_clean_exited by (auto simp: exited_clean_def exited_nonzero_def)
    with False Cons show ?thesis by (simp add: Let_def)
  next
    case True
    show ?thesis
    proof (cases "startsWith (trim (c_Status c)) ''exited (0)''")
      case z: True
      then have "exited_clean c" "\<not> exited_nonzero c"
        by (auto simp: exited_clean_def exited_nonzero_def)
      with True z Cons show ?thesis by (simp add: Let_def)
    next
      case z: False
      with True have "exited_nonzero c" by (simp add: exited_nonzero_def)
      with True z show ?thesis by (simp add: Let_def)
    qed
  qed
qed

lemma split_str_unfold:
  "split_str sep s =
     takeWhile (\<lambda>c. c \<noteq> sep) s #
     (case dropWhile (\<lambda>c. c \<noteq> sep) s of [] \<Rightarrow> [] | _ # r \<Rightarrow> split_str sep r)"
proof (induction s)
  case Nil
  then show ?case by simp
next
  case (Cons c s)
  then show ?case by (cases "split_str sep s") auto
qed

lemma dropWhile_sep_Nil: "(dropWhile (\<lambda>c. c \<noteq> sep) s = []) = (sep \<notin> set s)"
  by (induction s) auto

lemma split_str_Cons: "\<exists>rest. split_str sep s = takeWhile (\<lambda>c. c \<noteq> sep) s # rest"
  using split_str_unfold [of sep s] by blast

lemma split_str_Cons2:
  assumes "dropWhile (\<lambda>c. c \<noteq> sep) s = sep # r"
  shows "\<exists>rest. split_str sep s =
           takeWhile (\<lambda>c. c \<noteq> sep) s # takeWhile (\<lambda>c. c \<noteq> sep) r # rest"
proof -
  obtain rest where "split_str sep r = takeWhile (\<lambda>c. c \<noteq> sep) r # rest"
    using split_str_Cons by blast
  then have "split_str sep s = takeWhile (\<lambda>c. c \<noteq> sep) s # takeWhile (\<lambda>c. c \<noteq> sep) r # rest"
    using split_str_unfold [of sep s] assms by simp
  then show ?thesis by blast
qed

lemma expectedContainersExited_eq:
  "expectedContainersExited st =
     (if CHR ''('' \<in> set st then Inr (parseInt (first_parenthesized st)) else Inl TypeError)"
proof (cases "CHR ''('' \<in> set st")
  case False
  then show ?thesis
    by (simp add: expectedContainersExited_def split_str_no_sep)
next
  case True
  then have "dropWhile (\<lambda>c. c \<noteq> CHR ''('') st \<noteq> []"
    by (simp add: dropWhile_sep_Nil)
  then obtain r where r: "dropWhile (\<lambda>c. c \<noteq> CHR ''('') st = CHR ''('' # r"
    using hd_dropWhile [of "\<lambda>c. c \<noteq> CHR ''(''" st]
    by (cases "dropWhile (\<lambda>c. c \<noteq> CHR ''('') st") auto
  obtain rest where s1: "split_str CHR ''('' st =
      takeWhile (\<lambda>c. c \<noteq> CHR ''('') st # takeWhile (\<lambda>c. c \<noteq> CHR ''('') r # rest"
    using split_str_Cons2 [OF r] by blast
  obtain rest2 where s2: "split_str CHR '')'' (takeWhile (\<lambda>c. c \<noteq> CHR ''('') r) =
      takeWhile (\<lambda>c. c \<noteq> CHR '')'') (takeWhile (\<lambda>c. c \<noteq> CHR ''('') r) # rest2"
    using split_str_Cons by blast
  have fp: "first_parenthesized st =
      takeWhile (\<lambda>c. c \<noteq> CHR '')'') (takeWhile (\<lambda>c. c \<noteq> CHR ''('') r)"
    using r by (simp add: first_parenthesized_def)
  show ?thesis
    using True by (simp add: expectedContainersExited_def s1 s2 fp)
qed

lemma isComposeExitClean_eq:
  "(CHR ''('' \<in> set (Status composeStack) \<longrightarrow>
      isComposeExitClean d composeStack =
        Inr (case getSingleComposeStatus d (Name composeStack) of
               None \<Rightarrow> EXITED
             | Some composeStatus \<Rightarrow>
                 if \<exists>c \<in> set composeStatus. exited_nonzero c then EXITED
                 else if Some (int (length (filter exited_clean composeStatus)))
                           = parseInt (first_parenthesized (Status composeStack))
                 then RUNNING else EXITED))
   \<and> (CHR ''('' \<notin> set (Status composeStack) \<longrightarrow>
      isComposeExitClean d composeStack = Inl TypeError)"
  by (simp add: isComposeExitClean_def expectedContainersExited_eq exit_loop_eq
      split: option.splits)

text \<open>
  Claim C1, where the code departs from it. The steps of \<open>isComposeExitClean\<close> are those of
  the claim, but the expected count is read from the first parenthesised group of the
  aggregate status, whatever state that group counts. For the status
  \<open>dead(2), exited(1)\<close>, with two dead containers and one that exited with code 0, the
  code expects 2 exited containers and answers \<open>EXITED\<close>; the number of exited containers
  that the status gives is 1, and the classification of the claim is \<open>RUNNING\<close>. For the
  status \<open>exited\<close>, which has no group, the call fails with a \<open>TypeError\<close>; the list of
  the containers cannot be obtained there, and the classification of the claim is
  \<open>EXITED\<close>. For \<open>exited(3)\<close> with three containers that exited with code 0 the code
  and the claim agree.
\<close>

theorem isComposeExitClean_first_group:
  "expectedContainersExited ''dead(2), exited(1)'' = Inr (Some 2)
   \<and> spec_expected_exited ''dead(2), exited(1)'' = Some 1
   \<and> isComposeExitClean ex_dead_exited (ex_stack_json ''dead(2), exited(1)'') = Inr EXITED
   \<and> spec_isComposeExitClean ex_dead_exited (ex_stack_json ''dead(2), exited(1)'') = RUNNING
   \<and> getSingleComposeStatus ex_docker_unreachable (Name (ex_stack_json ''exited'')) = None
   \<and> isComposeExitClean ex_docker_unreachable (ex_stack_json ''exited'') = Inl TypeError
   \<and> spec_isComposeExitClean ex_docker_unreachable (ex_stack_json ''exited'') = EXITED
   \<and> isComposeExitClean ex_three_clean (ex_stack_json ''exited(3)'') = Inr RUNNING
   \<and> spec_isComposeExitClean ex_three_clean (ex_stack_json ''exited(3)'') = RUNNING"
  by code_simp

text \<open>
  Claim C2, as amended. \<open>statusConvert\<close> maps a status that begins with \<open>created\<close> to
  \<open>CREATED_STACK\<close>; a status that does not and contains \<open>exited\<close> anywhere goes to
  \<open>isComposeExitClean\<close>; a status that begins with \<open>running\<close> and does not contain
  \<open>exited\<close> is \<open>RUNNING\<close> whatever the engine says of the containers; every other status
  is \<open>UNKNOWN\<close>.
\<close>

theorem statusConvert_shapes:
  "(startsWith (Status composeStack) ''created'' \<longrightarrow>
      statusConvert d composeStack = Inr CREATED_STACK)
   \<and> (\<not> startsWith (Status composeStack) ''created''
       \<and> includes_str (Status composeStack) ''exited'' \<longrightarrow>
      statusConvert d composeStack = isComposeExitClean d composeStack)
   \<and> (startsWith (Status composeStack) ''running''
       \<and> \<not> includes_str (Status composeStack) ''exited'' \<longrightarrow>
      statusConvert d composeStack = Inr RUNNING)
   \<and> (\<not> startsWith (Status composeStack) ''created''
       \<and> \<not> includes_str (Status composeStack) ''exited''
       \<and> \<not> startsWith (Status composeStack) ''running'' \<longrightarrow>
      statusConvert d composeStack = Inr UNKNOWN)"
proof -
  have "\<not> startsWith (Status composeStack) ''created''"
    if "startsWith (Status composeStack) ''running''"
  proof
    assume "startsWith (Status composeStack) ''created''"
    then have "startsWith (Status composeStack) ''c''"
      using startsWith_append [of "Status composeStack" "''c''" "''reated''"] by simp
    moreover from that have "startsWith (Status composeStack) ''r''"
      using startsWith_append [of "Status composeStack" "''r''" "''unning''"] by simp
    ultimately show False by (simp add: startsWith_def)
  qed
  then show ?thesis by (auto simp: statusConvert_def)
qed

theorem statusConvert_shapes_witness:
  "startsWith (Status (ex_stack_json ''created(2)'')) ''created''
   \<and> statusConvert ex_one_failed (ex_stack_json ''created(2)'') = Inr CREATED_STACK
   \<and> includes_str (Status (ex_stack_json ''exited(3)'')) ''exited''
   \<and> statusConvert ex_three_clean (ex_stack_json ''exited(3)'') =
       isComposeExitClean ex_three_clean (ex_stack_json ''exited(3)'')
   \<and> startsWith (Status (ex_stack_json ''running(2)'')) ''running''
   \<and> statusConvert ex_one_failed (ex_stack_json ''running(2)'') = Inr RUNNING
   \<and> statusConvert ex_one_failed (ex_stack_json ''paused(1)'') = Inr UNKNOWN"
proof -
  have c: "startsWith (Status (ex_stack_json ''created(2)'')) ''created''" by code_simp
  have e: "\<not> startsWith (Status (ex_stack_json ''exited(3)'')) ''created''
    \<and> includes_str (Status (ex_stack_json ''exited(3)'')) ''exited''" by code_simp
  have r: "startsWith (Status (ex_stack_json ''running(2)'')) ''running''
    \<and> \<not> includes_str (Status (ex_stack_json ''running(2)'')) ''exited''" by code_simp
  have u: "\<not> startsWith (Status (ex_stack_json ''paused(1)'')) ''created''
    \<and> \<not> includes_str (Status (ex_stack_json ''paused(1)'')) ''exited''
    \<and> \<not> startsWith (Status (ex_stack_json ''paused(1)'')) ''running''" by code_simp
  have 1: "statusConvert ex_one_failed (ex_stack_json ''created(2)'') = Inr CREATED_STACK"
    using c statusConvert_shapes [of "ex_stack_json ''created(2)''" ex_one_failed] by blast
  have 2: "statusConvert ex_three_clean (ex_stack_json ''exited(3)'') =
       isComposeExitClean ex_three_clean (ex_stack_json ''exited(3)'')"
    using e statusConvert_shapes [of "ex_stack_json ''exited(3)''" ex_three_clean] by blast
  have 3: "statusConvert ex_one_failed (ex_stack_json ''running(2)'') = Inr RUNNING"
    using r statusConvert_shapes [of "ex_stack_json ''running(2)''" ex_one_failed] by blast
  have 4: "statusConvert ex_one_failed (ex_stack_json ''paused(1)'') = Inr UNKNOWN"
    using u statusConvert_shapes [of "ex_stack_json ''paused(1)''" ex_one_failed] by blast
  from c e r 1 2 3 4 show ?thesis by simp
qed

text \<open>
  A status that begins with \<open>running\<close> and mentions \<open>exited\<close> is classified from the
  containers: with one failed container it is \<open>EXITED\<close>.
\<close>

theorem statusConvert_running_exited_counterexample:
  "startsWith (Status (ex_stack_json ''running(1), exited(1)'')) ''running''
   \<and> statusConvert ex_running_exited (ex_stack_json ''running(1), exited(1)'') = Inr EXITED"
  by code_simp

section \<open>The cached artifact contents\<close>

lemma getFileContent_eq:
  "getFileContent fs s p k '''' =
     (content fs s p k, s\<lparr>fileCache := (fileCache s)(k \<mapsto> content fs s p k)\<rparr>)"
proof (cases "fileCache s k")
  case None
  then show ?thesis by (simp add: getFileContent_def content_def Let_def)
next
  case (Some v)
  have "(fileCache s)(k \<mapsto> v) = fileCache s"
    using Some by (rule map_upd_triv)
  then have "s\<lparr>fileCache := (fileCache s)(k \<mapsto> v)\<rparr> = s" by simp
  moreover have "content fs s p k = v" by (simp add: content_def Some)
  moreover have "getFileContent fs s p k [] = (v, s)" by (simp add: getFileContent_def Some)
  ultimately show ?thesis by simp
qed

lemma getFileContent_cached:
  "fileCache s k = Some v \<Longrightarrow> getFileContent fs s p k dv = (v, s)"
  by (simp add: getFileContent_def)



lemma getFileContent_fills:
  "fileCache (snd (getFileContent fs s p k dv)) k = Some (fst (getFileContent fs s p k dv))"
  by (simp add: getFileContent_def Let_def split: option.splits)


lemma getFileContent_again:
  "getFileContent fs' (snd (getFileContent fs s p k dv)) p' k dv' =
     (fst (getFileContent fs s p k dv), snd (getFileContent fs s p k dv))"
  using getFileContent_fills [of fs s p k dv] by (rule getFileContent_cached)



lemma trim_Nil: "trim [] = []"
  by (simp add: trim_def)

lemma ex_cached_values:
  "name (ex_cached n yaml ov env) = n"
  "fst (composeYAML fs (ex_cached n yaml ov env)) = yaml"
  "fst (composeOverrideYAML fs (ex_cached n yaml ov env)) = ov"
  "fst (composeENV fs (ex_cached n yaml ov env)) = env"
  by (simp_all add: ex_cached_def composeYAML_def composeOverrideYAML_def composeENV_def
      getFileContent_def)







section \<open>Saving a stack\<close>

lemma validateEnvFormat_cases:
  "validateEnvFormat env = Inr () \<or>
   validateEnvFormat env = Inl (ValidationError ''Invalid .env format'')"
  by (simp add: validateEnvFormat_def Let_def)

lemma override_after_yaml:
  "fst (composeOverrideYAML fs (snd (composeYAML fs s))) = fst (composeOverrideYAML fs s)"
  by (simp add: composeYAML_def composeOverrideYAML_def getFileContent_eq content_def path_def)

lemma override_again:
  "composeOverrideYAML fs (snd (composeOverrideYAML fs s)) = composeOverrideYAML fs s"
  by (simp add: composeOverrideYAML_def getFileContent_again)

lemma env_after:
  "fst (composeENV fs (snd (composeOverrideYAML fs (snd (composeYAML fs s))))) =
     fst (composeENV fs s)"
  by (simp add: composeYAML_def composeOverrideYAML_def composeENV_def getFileContent_eq
      content_def path_def)

lemma validate_result:
  "fst (validate yaml_ok fs s) =
     (if \<not> name_matches (name s)
      then Inl (ValidationError ''Stack name can only contain [a-z][0-9] _ - only'')
      else if \<not> yaml_ok (fst (composeYAML fs s)) then Inl YAMLParseError
      else if trim (fst (composeOverrideYAML fs s)) \<noteq> []
              \<and> \<not> yaml_ok (fst (composeOverrideYAML fs s))
      then Inl YAMLParseError
      else validateEnvFormat (fst (composeENV fs s)))"
proof -
  obtain y s1 where y: "composeYAML fs s = (y, s1)" by (cases "composeYAML fs s")
  obtain ov s2 where ov: "composeOverrideYAML fs s1 = (ov, s2)"
    by (cases "composeOverrideYAML fs s1")
  have again: "composeOverrideYAML fs s2 = (ov, s2)"
    using override_again [of fs s1] ov by simp
  have ov': "fst (composeOverrideYAML fs s) = ov"
    using override_after_yaml [of fs s] y ov by simp
  obtain ev s5 where ev: "composeENV fs s2 = (ev, s5)" by (cases "composeENV fs s2")
  have env': "fst (composeENV fs s) = ev"
    using env_after [of fs s] y ov ev by simp
  have y': "fst (composeYAML fs s) = y" using y by simp
  have t: "ov = [] \<Longrightarrow> trim ov = []" by (simp add: trim_Nil)
  show ?thesis
    using t by (auto simp: validate_def y ov again ev y' ov' env' Let_def)
qed

lemma save_validation_error:
  "fst (validate yaml_ok fs s) = Inl e \<Longrightarrow>
   save yaml_ok fs s isAdd = (Inl e, snd (validate yaml_ok fs s), fs)"
  by (cases "validate yaml_ok fs s") (simp add: save_def)

text \<open>
  Claim C6, as amended. \<open>save\<close> validates before it touches the disk. A name that is
  not one or more characters of \<open>[a-z0-9_-]\<close> raises a \<open>ValidationError\<close>; a primary
  definition that the YAML parser rejects, or an override that is not blank and that the
  parser rejects, raises the parser's own error (not a \<open>ValidationError\<close>); an
  environment file of the rejected shape raises a \<open>ValidationError\<close>. Whenever the
  validation fails, \<open>save\<close> fails with the same error and the files are as before: no
  file is written and no directory is created.
\<close>

theorem save_validates_first:
  "(\<not> name_matches (name s) \<longrightarrow>
      save yaml_ok fs s isAdd =
        (Inl (ValidationError ''Stack name can only contain [a-z][0-9] _ - only''), s, fs))
   \<and> (name_matches (name s) \<and> \<not> yaml_ok (fst (composeYAML fs s)) \<longrightarrow>
      fst (save yaml_ok fs s isAdd) = Inl YAMLParseError
      \<and> snd (snd (save yaml_ok fs s isAdd)) = fs)
   \<and> (name_matches (name s) \<and> yaml_ok (fst (composeYAML fs s))
       \<and> trim (fst (composeOverrideYAML fs s)) \<noteq> []
       \<and> \<not> yaml_ok (fst (composeOverrideYAML fs s)) \<longrightarrow>
      fst (save yaml_ok fs s isAdd) = Inl YAMLParseError
      \<and> snd (snd (save yaml_ok fs s isAdd)) = fs)
   \<and> (name_matches (name s) \<and> yaml_ok (fst (composeYAML fs s))
       \<and> (trim (fst (composeOverrideYAML fs s)) = []
            \<or> yaml_ok (fst (composeOverrideYAML fs s)))
       \<and> validateEnvFormat (fst (composeENV fs s)) \<noteq> Inr () \<longrightarrow>
      fst (save yaml_ok fs s isAdd) = Inl (ValidationError ''Invalid .env format'')
      \<and> snd (snd (save yaml_ok fs s isAdd)) = fs)
   \<and> (fst (validate yaml_ok fs s) = Inl e \<longrightarrow>
      fst (save yaml_ok fs s isAdd) = Inl e
      \<and> snd (snd (save yaml_ok fs s isAdd)) = fs)"
proof -
  have n: "\<not> name_matches (name s) \<longrightarrow>
      save yaml_ok fs s isAdd =
        (Inl (ValidationError ''Stack name can only contain [a-z][0-9] _ - only''), s, fs)"
    by (simp add: save_def validate_def)
  have g: "fst (validate yaml_ok fs s) = Inl e' \<longrightarrow>
      fst (save yaml_ok fs s isAdd) = Inl e'
      \<and> snd (snd (save yaml_ok fs s isAdd)) = fs" for e'
    using save_validation_error [of yaml_ok fs s e' isAdd] by simp
  have y: "name_matches (name s) \<and> \<not> yaml_ok (fst (composeYAML fs s)) \<longrightarrow>
      fst (save yaml_ok fs s isAdd) = Inl YAMLParseError
      \<and> snd (snd (save yaml_ok fs s isAdd)) = fs"
    using g [of YAMLParseError] by (simp add: validate_result)
  have ov: "name_matches (name s) \<and> yaml_ok (fst (composeYAML fs s))
       \<and> trim (fst (composeOverrideYAML fs s)) \<noteq> []
       \<and> \<not> yaml_ok (fst (composeOverrideYAML fs s)) \<longrightarrow>
      fst (save yaml_ok fs s isAdd) = Inl YAMLParseError
      \<and> snd (snd (save yaml_ok fs s isAdd)) = fs"
    using g [of YAMLParseError] by (simp add: validate_result)
  have env: "name_matches (name s) \<and> yaml_ok (fst (composeYAML fs s))
       \<and> (trim (fst (composeOverrideYAML fs s)) = []
            \<or> yaml_ok (fst (composeOverrideYAML fs s)))
       \<and> validateEnvFormat (fst (composeENV fs s)) \<noteq> Inr () \<longrightarrow>
      fst (save yaml_ok fs s isAdd) = Inl (ValidationError ''Invalid .env format'')
      \<and> snd (snd (save yaml_ok fs s isAdd)) = fs"
    using g [of "ValidationError ''Invalid .env format''"]
      validateEnvFormat_cases [of "fst (composeENV fs s)"]
    by (auto simp: validate_result)
  from n y ov env g [of e] show ?thesis by blast
qed

theorem save_validates_first_witness:
  "\<not> name_matches (name (ex_cached ''Web!'' ''services: {}'' [] []))
   \<and> save ex_yaml_ok ex_files (ex_cached ''Web!'' ''services: {}'' [] []) True =
       (Inl (ValidationError ''Stack name can only contain [a-z][0-9] _ - only''),
        ex_cached ''Web!'' ''services: {}'' [] [], ex_files)
   \<and> \<not> ex_yaml_ok ''a: [b''
   \<and> fst (save ex_yaml_ok ex_files (ex_cached ''web'' ''a: [b'' [] []) True) = Inl YAMLParseError
   \<and> snd (snd (save ex_yaml_ok ex_files (ex_cached ''web'' ''a: [b'' [] []) True)) = ex_files
   \<and> fst (save ex_yaml_ok ex_files (ex_cached ''web'' ''services: {}'' ''a: [b'' []) True)
       = Inl YAMLParseError
   \<and> snd (snd (save ex_yaml_ok ex_files (ex_cached ''web'' ''services: {}'' ''a: [b'' []) True))
       = ex_files
   \<and> fst (save ex_yaml_ok ex_files (ex_cached ''web'' ''services: {}'' [] ''FOO'') True)
       = Inl (ValidationError ''Invalid .env format'')
   \<and> snd (snd (save ex_yaml_ok ex_files (ex_cached ''web'' ''services: {}'' [] ''FOO'') True))
       = ex_files"
proof -
  have bad: "\<not> name_matches ''Web!''" by code_simp
  have ok: "name_matches ''web''" by code_simp
  have y1: "\<not> ex_yaml_ok ''a: [b''" by (simp add: ex_yaml_ok_def)
  have y2: "ex_yaml_ok ''services: {}''" by (simp add: ex_yaml_ok_def)
  have t1: "trim ''a: [b'' \<noteq> []" by code_simp
  have t2: "trim [] = []" by (rule trim_Nil)
  have e1: "validateEnvFormat ''FOO'' \<noteq> Inr ()" by code_simp
  have 1: "save ex_yaml_ok ex_files (ex_cached ''Web!'' ''services: {}'' [] []) True =
       (Inl (ValidationError ''Stack name can only contain [a-z][0-9] _ - only''),
        ex_cached ''Web!'' ''services: {}'' [] [], ex_files)"
    using save_validates_first
      [where s = "ex_cached ''Web!'' ''services: {}'' [] []" and yaml_ok = ex_yaml_ok
        and fs = ex_files and isAdd = True] bad
    by (simp add: ex_cached_values)
  have 2: "fst (save ex_yaml_ok ex_files (ex_cached ''web'' ''a: [b'' [] []) True) = Inl YAMLParseError
    \<and> snd (snd (save ex_yaml_ok ex_files (ex_cached ''web'' ''a: [b'' [] []) True)) = ex_files"
    using save_validates_first
      [where s = "ex_cached ''web'' ''a: [b'' [] []" and yaml_ok = ex_yaml_ok
        and fs = ex_files and isAdd = True] ok y1
    by (simp add: ex_cached_values)
  have 3: "fst (save ex_yaml_ok ex_files (ex_cached ''web'' ''services: {}'' ''a: [b'' []) True)
       = Inl YAMLParseError
    \<and> snd (snd (save ex_yaml_ok ex_files (ex_cached ''web'' ''services: {}'' ''a: [b'' []) True))
       = ex_files"
    using save_validates_first
      [where s = "ex_cached ''web'' ''services: {}'' ''a: [b'' []" and yaml_ok = ex_yaml_ok
        and fs = ex_files and isAdd = True] ok y1 y2 t1
    by (simp add: ex_cached_values)
  have 4: "fst (save ex_yaml_ok ex_files (ex_cached ''web'' ''services: {}'' [] ''FOO'') True)
       = Inl (ValidationError ''Invalid .env format'')
    \<and> snd (snd (save ex_yaml_ok ex_files (ex_cached ''web'' ''services: {}'' [] ''FOO'') True))
       = ex_files"
    using save_validates_first
      [where s = "ex_cached ''web'' ''services: {}'' [] ''FOO''" and yaml_ok = ex_yaml_ok
        and fs = ex_files and isAdd = True] ok y2 t2 e1
    by (simp add: ex_cached_values)
  from bad y1 1 2 3 4 show ?thesis by (simp add: ex_cached_values)
qed

text \<open>
  A well-named stack whose primary definition does not parse: \<open>save\<close> fails with the
  parser's error.
\<close>

theorem save_yaml_error_counterexample:
  "name_matches (name (ex_cached ''web'' ''a: [b'' [] []))
   \<and> \<not> ex_yaml_ok (fst (composeYAML ex_files (ex_cached ''web'' ''a: [b'' [] [])))
   \<and> fst (save ex_yaml_ok ex_files (ex_cached ''web'' ''a: [b'' [] []) True) = Inl YAMLParseError"
proof -
  have "name_matches ''web''" by code_simp
  moreover have "\<not> ex_yaml_ok ''a: [b''" by (simp add: ex_yaml_ok_def)
  moreover have "fst (validate ex_yaml_ok ex_files (ex_cached ''web'' ''a: [b'' [] []))
      = Inl YAMLParseError"
    using calculation by (simp add: validate_result ex_cached_values)
  ultimately show ?thesis
    using save_validation_error
      [of ex_yaml_ok ex_files "ex_cached ''web'' ''a: [b'' [] []" YAMLParseError True]
    by (simp add: ex_cached_values)
qed

end
